theory Spec2Isabelle
  imports Complex_Main "HOL-Library.Sublist"
begin

chapter \<open>The program\<close>

section \<open>Rate limiter (routes/chat.js and routes/documents.js, \<open>rateLimiter.isAllowed\<close>)\<close>

text \<open>
  The limiter keeps \<open>requests\<close>, a JavaScript \<open>Map\<close> from a key to the array of the
  times (milliseconds, \<open>Date.now()\<close>) of the admitted calls. The clock is an argument
  of the model. \<open>validRequests.push(now)\<close> mutates the array that was just stored in
  the map, so the stored array is the extended one.
\<close>

type_synonym rate_store = "string \<rightharpoonup> int list"

definition recorded :: "rate_store \<Rightarrow> string \<Rightarrow> int list" where
  "recorded requests key = (case requests key of None \<Rightarrow> [] | Some stamps \<Rightarrow> stamps)"

definition isAllowed :: "rate_store \<Rightarrow> string \<Rightarrow> int \<Rightarrow> int \<Rightarrow> int \<Rightarrow> bool \<times> rate_store" where
  "isAllowed requests key maxRequests windowMs now =
     (let windowStart = now - windowMs;
          requests1 = (if requests key = None then requests(key \<mapsto> []) else requests);
          userRequests = recorded requests1 key;
          validRequests = filter (\<lambda>time. time > windowStart) userRequests;
          requests2 = requests1(key \<mapsto> validRequests)
      in if int (length validRequests) \<ge> maxRequests then (False, requests2)
         else (True, requests2(key \<mapsto> validRequests @ [now])))"

text \<open>A sequence of calls with one key and fixed parameters, at the given clock readings.\<close>

fun callSequence :: "rate_store \<Rightarrow> string \<Rightarrow> int \<Rightarrow> int \<Rightarrow> int list \<Rightarrow> bool list \<times> rate_store" where
  "callSequence requests key maxRequests windowMs [] = ([], requests)"
| "callSequence requests key maxRequests windowMs (now # nows) =
     (case isAllowed requests key maxRequests windowMs now of
        (ok, requests1) \<Rightarrow>
          (case callSequence requests1 key maxRequests windowMs nows of
             (oks, requests2) \<Rightarrow> (ok # oks, requests2)))"

subsection \<open>The sliding-window rule in the words of the specification\<close>





section \<open>JavaScript strings\<close>

text \<open>
  A JavaScript string is modelled as a \<open>string\<close>; one \<open>char\<close> stands for one UTF-16
  code unit below 256 (the Latin-1 range), so \<open>length\<close> is \<open>.length\<close>. In that range
  \<open>toLowerCase\<close> adds 32 to the code of \<open>A\<close>-\<open>Z\<close> and of U+00C0-U+00DE except U+00D7,
  which is setting bit 5, and \<open>trim\<close> removes TAB, LF, VT, FF, CR, SP and NBSP.
\<close>

definition isUpperCaseChar :: "char \<Rightarrow> bool" where
  "isUpperCaseChar c =
     (let n = (of_char c :: nat)
      in (65 \<le> n \<and> n \<le> 90) \<or> (192 \<le> n \<and> n \<le> 222 \<and> n \<noteq> 215))"

definition toLowerCaseChar :: "char \<Rightarrow> char" where
  "toLowerCaseChar c =
     (if isUpperCaseChar c
      then Char (digit0 c) (digit1 c) (digit2 c) (digit3 c) (digit4 c) True (digit6 c) (digit7 c)
      else c)"

definition toLowerCase :: "string \<Rightarrow> string" where
  "toLowerCase s = map toLowerCaseChar s"

definition isWhiteSpace :: "char \<Rightarrow> bool" where
  "isWhiteSpace c = ((of_char c :: nat) \<in> {9, 10, 11, 12, 13, 32, 160})"

definition trim :: "string \<Rightarrow> string" where
  "trim s = rev (dropWhile isWhiteSpace (rev (dropWhile isWhiteSpace s)))"

text \<open>\<open>s.includes(sub)\<close>: \<open>sub\<close> occurs in \<open>s\<close> at some position.\<close>

fun str_includes :: "string \<Rightarrow> string \<Rightarrow> bool" where
  "str_includes [] sub = (sub = [])"
| "str_includes (c # cs) sub = (prefix sub (c # cs) \<or> str_includes cs sub)"

text \<open>\<open>parts.join(sep)\<close>.\<close>

fun join :: "string \<Rightarrow> string list \<Rightarrow> string" where
  "join sep [] = []"
| "join sep [x] = x"
| "join sep (x # y # ys) = x @ sep @ join sep (y # ys)"

definition newline :: string where
  "newline = [CHR 0x0A]"

definition dquote :: string where
  "dquote = [CHR 0x22]"

definition squote :: string where
  "squote = [CHR 0x27]"

text \<open>Decimal notation of a number, as a template literal prints it.\<close>

fun show_nat :: "nat \<Rightarrow> string" where
  "show_nat n =
     (if n < 10 then [''0123456789'' ! n]
      else show_nat (n div 10) @ [''0123456789'' ! (n mod 10)])"

declare show_nat.simps [simp del]



definition show_int :: "int \<Rightarrow> string" where
  "show_int i = (if i < 0 then ''-'' @ show_nat (nat (- i)) else show_nat (nat i))"

section \<open>Chat context assembly (routes/chat.js)\<close>

text \<open>
  A row of the \<open>documents\<close> table as the handler selects it (\<open>id, title, content\<close>);
  \<open>content\<close> may be \<open>null\<close>. The result of a Supabase query is the pair
  \<open>{data, error}\<close>, or the call throws.
\<close>

record doc_row =
  row_id :: string
  row_title :: string
  row_content :: "string option"

datatype 'a fetched = Thrown string | Fetched "'a option" "string option"

record chunk =
  document_id :: string
  document_title :: string
  chunk_content :: string
  chunk_similarity :: real

record source =
  documentId :: string
  documentTitle :: string
  similarity :: real
  content :: string

definition attachmentKeywords :: "string list" where
  "attachmentKeywords = [''attachment'', ''document'', ''file'', ''pdf'', ''doc'', ''uploaded'']"

definition mentionsAttachment :: "string \<Rightarrow> bool" where
  "mentionsAttachment query =
     list_ex (\<lambda>keyword. str_includes (toLowerCase query) keyword) attachmentKeywords"

definition attachmentExplanation :: string where
  "attachmentExplanation =
     ''The user has mentioned attachments or documents. Here is the relevant content from their uploaded documents:''
     @ newline @ newline"

definition enhanceContextForAttachments :: "string \<Rightarrow> string" where
  "enhanceContextForAttachments context = attachmentExplanation @ context"

text \<open>The filter of \<open>searchDocuments\<close>: \<open>doc.content && doc.content.toLowerCase().includes(query.toLowerCase())\<close>.\<close>

definition matchesQuery :: "string \<Rightarrow> doc_row \<Rightarrow> bool" where
  "matchesQuery query doc =
     (case row_content doc of
        None \<Rightarrow> False
      | Some c \<Rightarrow> c \<noteq> [] \<and> str_includes (toLowerCase c) (toLowerCase query))"

definition toChunk :: "doc_row \<Rightarrow> chunk" where
  "toChunk doc =
     \<lparr>document_id = row_id doc, document_title = row_title doc,
      chunk_content = (case row_content doc of None \<Rightarrow> [] | Some c \<Rightarrow> c),
      chunk_similarity = 0.8\<rparr>"

text \<open>
  \<open>searchDocuments(query, documentIds, threshold, limit)\<close>; the argument \<open>fetch\<close> is the
  outcome of its query for the rows whose id is in \<open>documentIds\<close>, \<open>threshold\<close> is unused
  by the source. \<open>Inl\<close> is a thrown error.
\<close>

definition searchDocuments :: "string \<Rightarrow> doc_row list fetched \<Rightarrow> nat \<Rightarrow> string + chunk list" where
  "searchDocuments query fetch limit =
     (case fetch of
        Thrown msg \<Rightarrow> Inl msg
      | Fetched None err \<Rightarrow> Inr []
      | Fetched (Some documents) err \<Rightarrow>
          Inr (map toChunk (take limit (filter (matchesQuery query) documents))))"

definition excerpt :: "string \<Rightarrow> string" where
  "excerpt c = take 300 c @ (if length c > 300 then ''...'' else [])"

definition chunkSource :: "chunk \<Rightarrow> source" where
  "chunkSource ch =
     \<lparr>documentId = document_id ch, documentTitle = document_title ch,
      similarity = chunk_similarity ch, content = excerpt (chunk_content ch)\<rparr>"

definition hasContent :: "doc_row \<Rightarrow> bool" where
  "hasContent doc = (case row_content doc of None \<Rightarrow> False | Some c \<Rightarrow> c \<noteq> [])"

definition docSource :: "real \<Rightarrow> doc_row \<Rightarrow> source" where
  "docSource score doc =
     \<lparr>documentId = row_id doc, documentTitle = row_title doc, similarity = score,
      content = excerpt (case row_content doc of None \<Rightarrow> [] | Some c \<Rightarrow> c)\<rparr>"

definition sufficientContent :: "doc_row \<Rightarrow> bool" where
  "sufficientContent doc =
     (case row_content doc of None \<Rightarrow> False | Some c \<Rightarrow> c \<noteq> [] \<and> length (trim c) > 20)"

definition documentBlock :: "doc_row \<Rightarrow> string" where
  "documentBlock doc =
     ''=== DOCUMENT: '' @ row_title doc @ '' ==='' @ newline @ newline
     @ (case row_content doc of None \<Rightarrow> ''null'' | Some c \<Rightarrow> c)
     @ newline @ newline @ ''=== END DOCUMENT ===''"

definition noContentNote :: "doc_row \<Rightarrow> string" where
  "noContentNote doc =
     ''Document '' @ dquote @ row_title doc @ dquote
     @ '' was selected but contains no readable content.''"

text \<open>
  The part of the \<open>POST /stream\<close> handler between authorisation and the reply
  generation: it computes \<open>context\<close> and \<open>sources\<close> from the query, the request's
  \<open>documentIds\<close> (possibly absent) and the outcomes of the two queries, the handler's own
  and the one inside \<open>searchDocuments\<close>.
\<close>

definition assembleSources :: "string \<Rightarrow> doc_row list \<Rightarrow> doc_row list fetched \<Rightarrow> source list" where
  "assembleSources userQuery selectedDocuments searchFetch =
     (case searchDocuments userQuery searchFetch 8 of
        Inr relevantChunks \<Rightarrow>
          if relevantChunks \<noteq> [] then map chunkSource relevantChunks
          else map (docSource 0.95) (filter hasContent selectedDocuments)
      | Inl searchError \<Rightarrow> map (docSource 0.9) (filter hasContent selectedDocuments))"

definition assembleDocuments :: "doc_row list \<Rightarrow> string" where
  "assembleDocuments selectedDocuments =
     (let documentsWithContent = filter sufficientContent selectedDocuments
      in if documentsWithContent \<noteq> []
         then join (newline @ newline) (map documentBlock documentsWithContent)
         else join newline (map noContentNote selectedDocuments))"

definition streamContext ::
  "string \<Rightarrow> string list option \<Rightarrow> doc_row list fetched \<Rightarrow> doc_row list fetched
     \<Rightarrow> string \<times> source list" where
  "streamContext userQuery documentIds selectedFetch searchFetch =
     (let userMentionsAttachment = mentionsAttachment userQuery;
          (context, sources) =
            (case documentIds of
               None \<Rightarrow> ([], [])
             | Some ids \<Rightarrow>
                 if ids = [] then ([], [])
                 else (case selectedFetch of
                         Thrown contextError \<Rightarrow> ([], [])
                       | Fetched selected docError \<Rightarrow>
                           if docError \<noteq> None then ([], [])
                           else (case selected of
                                   None \<Rightarrow> ([], [])
                                 | Some selectedDocuments \<Rightarrow>
                                     if selectedDocuments = [] then ([], [])
                                     else (assembleDocuments selectedDocuments,
                                           assembleSources userQuery selectedDocuments searchFetch))))
      in (if userMentionsAttachment \<and> context \<noteq> []
          then enhanceContextForAttachments context else context, sources))"

section \<open>OCR extractor (services/ocr-service.js)\<close>

text \<open>
  The data that \<open>Tesseract.recognize\<close> resolves to, as far as the service reads it:
  the text, the overall confidence, the word list (possibly absent) and the sizes of
  the other layout arrays (possibly absent).
\<close>

record ocr_word =
  word_text :: string
  word_confidence :: real

record ocr_data =
  data_text :: string
  data_confidence :: real
  data_blocks :: "nat option"
  data_paragraphs :: "nat option"
  data_lines :: "nat option"
  data_words :: "ocr_word list option"
  data_symbols :: "nat option"

record ocr_metadata =
  meta_confidence :: int
  meta_language :: string
  meta_blocks :: nat
  meta_paragraphs :: nat
  meta_lines :: nat
  meta_words :: nat
  meta_symbols :: nat

record ocr_result =
  result_text :: string
  result_metadata :: ocr_metadata
  result_processingTime :: string

definition filterLowConfidenceText :: "ocr_data \<Rightarrow> real \<Rightarrow> string" where
  "filterLowConfidenceText data minConfidence =
     (case data_words data of
        None \<Rightarrow> data_text data
      | Some ws \<Rightarrow>
          (let filteredWords =
                 join '' '' (map word_text (filter (\<lambda>w. word_confidence w \<ge> minConfidence) ws))
           in if filteredWords \<noteq> [] then filteredWords else data_text data))"

definition lengthOrZero :: "nat option \<Rightarrow> nat" where
  "lengthOrZero n = (case n of None \<Rightarrow> 0 | Some k \<Rightarrow> k)"

text \<open>
  \<open>extractText(filePath, language)\<close>: \<open>recognize\<close> is the outcome of
  \<open>Tesseract.recognize\<close> (\<open>Inl\<close> the message of a thrown error), \<open>elapsed\<close> the
  difference of the two clock readings. \<open>Math.round\<close> is \<open>\<lfloor>x + 1/2\<rfloor>\<close>.
\<close>

definition ocrExtractText :: "string + ocr_data \<Rightarrow> string \<Rightarrow> int \<Rightarrow> string + ocr_result" where
  "ocrExtractText recognize language elapsed =
     (case recognize of
        Inl message \<Rightarrow> Inl (''OCR extraction failed: '' @ message)
      | Inr data \<Rightarrow>
          (let filteredText = filterLowConfidenceText data 30
           in Inr \<lparr>result_text = (if filteredText \<noteq> [] then filteredText else trim (data_text data)),
                   result_metadata =
                     \<lparr>meta_confidence = \<lfloor>data_confidence data + 1 / 2\<rfloor>,
                      meta_language = language,
                      meta_blocks = lengthOrZero (data_blocks data),
                      meta_paragraphs = lengthOrZero (data_paragraphs data),
                      meta_lines = lengthOrZero (data_lines data),
                      meta_words = lengthOrZero (map_option length (data_words data)),
                      meta_symbols = lengthOrZero (data_symbols data)\<rparr>,
                   result_processingTime = show_int elapsed @ ''ms''\<rparr>))"

section \<open>Text extraction of the documents route (routes/documents.js, \<open>extractTextFromFile\<close>)\<close>

text \<open>
  The file object that multer hands to the route. The libraries are arguments of the
  model: each maps the path of the scratch file to the text it yields, or to the message
  of the error it throws (\<open>Inl\<close>); \<open>localeDate\<close> is what
  \<open>new Date().toLocaleDateString()\<close> prints.
\<close>

record upload_file =
  file_path :: string
  file_mimetype :: string
  file_originalname :: string
  file_size :: nat

record extract_env =
  readFileUtf8 :: "string \<Rightarrow> string + string"
  pdfParseText :: "string \<Rightarrow> string + string"
  mammothRawText :: "string \<Rightarrow> string + string"
  localeDate :: string

text \<open>\<open>Math.round(size / 1024)\<close> of a byte count: halves round up.\<close>

definition roundKB :: "nat \<Rightarrow> nat" where
  "roundKB bytes = (bytes + 512) div 1024"

text \<open>The branch of the \<open>if\<close> chain that fills \<open>extractedText\<close>, which starts as \<open>''\<close>.\<close>

definition runExtractor :: "extract_env \<Rightarrow> upload_file \<Rightarrow> string \<Rightarrow> string + string" where
  "runExtractor env file filePath =
     (if file_mimetype file = ''text/plain'' then readFileUtf8 env filePath
      else if file_mimetype file = ''application/pdf'' then pdfParseText env filePath
      else if str_includes (file_mimetype file) ''wordprocessingml''
              \<or> str_includes (file_mimetype file) ''msword''
           then mammothRawText env filePath
      else Inr [])"

definition fileKind :: "upload_file \<Rightarrow> string" where
  "fileKind file =
     (if str_includes (file_mimetype file) ''pdf'' then ''PDF''
      else if str_includes (file_mimetype file) ''word'' then ''Word''
      else ''document'')"

definition insufficientFallback :: "extract_env \<Rightarrow> upload_file \<Rightarrow> string" where
  "insufficientFallback env file =
     ''Document: '' @ file_originalname file @ newline @ newline
     @ ''This is a '' @ fileKind file @ '' file uploaded to the platform.'' @ newline @ newline
     @ ''File Details:'' @ newline
     @ ''- Original Name: '' @ file_originalname file @ newline
     @ ''- Type: '' @ file_mimetype file @ newline
     @ ''- Size: '' @ show_nat (roundKB (file_size file)) @ '' KB'' @ newline
     @ ''- Upload Date: '' @ localeDate env @ newline @ newline
     @ ''Note: Text extraction was not successful for this file. For better analysis, please ensure the document contains readable text content.''"

definition errorFallback :: "extract_env \<Rightarrow> upload_file \<Rightarrow> string \<Rightarrow> string" where
  "errorFallback env file message =
     ''Document: '' @ file_originalname file @ newline @ newline
     @ ''This document has been uploaded but text extraction encountered an error.''
     @ newline @ newline
     @ ''File Details:'' @ newline
     @ ''- Original Name: '' @ file_originalname file @ newline
     @ ''- Size: '' @ show_nat (roundKB (file_size file)) @ '' KB'' @ newline
     @ ''- Upload Date: '' @ localeDate env @ newline @ newline
     @ ''Error during text extraction: '' @ message @ newline @ newline
     @ ''Please try re-uploading the document or contact support if the issue persists.''"

text \<open>
  The \<open>try\<close> block: it throws what the extractor throws, and otherwise replaces a text
  that is empty or shorter than 50 characters after trimming.
\<close>

definition extractTry :: "extract_env \<Rightarrow> upload_file \<Rightarrow> string \<Rightarrow> string + string" where
  "extractTry env file filePath =
     (case runExtractor env file filePath of
        Inl message \<Rightarrow> Inl message
      | Inr extractedText \<Rightarrow>
          if extractedText = [] \<or> length (trim extractedText) < 50
          then Inr (insufficientFallback env file)
          else Inr extractedText)"

text \<open>
  The function with its \<open>catch\<close>. The result is \<open>Inr\<close> the returned text, or
  \<open>Inl\<close> the message of an error that leaves the function.
\<close>

definition extractTextFromFile :: "extract_env \<Rightarrow> upload_file \<Rightarrow> string \<Rightarrow> string + string" where
  "extractTextFromFile env file filePath =
     (case extractTry env file filePath of
        Inl message \<Rightarrow> Inr (errorFallback env file message)
      | Inr extractedText \<Rightarrow> Inr extractedText)"

section \<open>HTTP handlers: responses, the Supabase client, authorisation\<close>

text \<open>
  A response is the status and the JSON body passed to \<open>res.status(...).json(...)\<close>.
  A call of the Supabase client that changes something either throws, or resolves with
  an \<open>error\<close>, or succeeds.
\<close>

datatype json =
  JStr string | JNum int | JBoolean bool | JNull | JArr "json list" | JObj "(string \<times> json) list"

record response =
  status :: nat
  body :: json

datatype outcome = Throws string | Fails string | Succeeds

record auth_user =
  user_id :: string
  user_email :: string

record profile =
  profile_status :: string
  profile_role :: string
  profile_email :: string

text \<open>
  \<open>authGetUser token\<close> is the outcome of \<open>supabase.auth.getUser(token)\<close>, with
  \<open>data.user\<close> as the data; \<open>selectProfile id\<close> the outcome of the query for the
  profile row of the user.
\<close>

record backend =
  authGetUser :: "string \<Rightarrow> auth_user fetched"
  selectProfile :: "string \<Rightarrow> profile fetched"

definition errorResponse :: "nat \<Rightarrow> string \<Rightarrow> response" where
  "errorResponse code msg = \<lparr>status = code, body = JObj [(''error'', JStr msg)]\<rparr>"

text \<open>\<open>s.split(sep)\<close> for a separator of one character.\<close>

fun split_on :: "char \<Rightarrow> string \<Rightarrow> string list" where
  "split_on sep [] = [[]]"
| "split_on sep (c # cs) =
     (if c = sep then [] # split_on sep cs
      else (case split_on sep cs of [] \<Rightarrow> [[c]] | p # ps \<Rightarrow> (c # p) # ps))"

text \<open>
  The check of the \<open>Authorization\<close> header that every handler starts with: \<open>None\<close>
  when the header is absent, empty or does not start with \<open>Bearer \<close>, otherwise the token
  \<open>authHeader.split(' ')[1]\<close>.
\<close>

definition bearerToken :: "string option \<Rightarrow> string option" where
  "bearerToken authHeader =
     (case authHeader of
        None \<Rightarrow> None
      | Some h \<Rightarrow>
          if h = [] \<or> \<not> prefix ''Bearer '' h then None
          else (case split_on CHR '' '' h of
                  scheme # token # rest \<Rightarrow> Some token
                | _ \<Rightarrow> Some []))"

section \<open>Conversation titles (routes/conversations.js)\<close>

record message =
  msg_role :: string
  msg_content :: string

record conversation =
  conv_user_id :: string

record title_request =
  title_conversationId :: "string option"
  title_messages :: "message list option"
  title_authorization :: "string option"

record title_env = backend +
  selectConversation :: "string \<Rightarrow> conversation fetched"
  updateTitle :: "string \<Rightarrow> string \<Rightarrow> outcome"

text \<open>The replacement of \<open>/^(user|assistant):\\s*/i\<close> by the empty string.\<close>

definition stripRole :: "string \<Rightarrow> string" where
  "stripRole s =
     (if prefix ''user:'' (toLowerCase s) then dropWhile isWhiteSpace (drop 5 s)
      else if prefix ''assistant:'' (toLowerCase s) then dropWhile isWhiteSpace (drop 10 s)
      else s)"

definition generateSimpleTitle :: "string \<Rightarrow> string" where
  "generateSimpleTitle conversationText =
     (let firstMessage = (case split_on (CHR 0x0A) conversationText of [] \<Rightarrow> [] | l # ls \<Rightarrow> l);
          ws = split_on CHR '' '' (stripRole firstMessage)
      in join '' '' (take 8 ws) @ (if length ws > 8 then ''...'' else []))"

definition internalError :: response where
  "internalError = errorResponse 500 ''Internal server error''"

definition generateTitleHandler :: "'a title_env_scheme \<Rightarrow> title_request \<Rightarrow> response" where
  "generateTitleHandler env req =
     (case (title_conversationId req, title_messages req) of
        (Some conversationId, Some messages) \<Rightarrow>
          if conversationId = [] \<or> messages = [] then errorResponse 400 ''Invalid request''
          else
          (case bearerToken (title_authorization req) of
             None \<Rightarrow> errorResponse 401 ''Unauthorized''
           | Some token \<Rightarrow>
             (case authGetUser env token of
                Thrown e \<Rightarrow> internalError
              | Fetched (Some user) None \<Rightarrow>
                (case selectProfile env (user_id user) of
                   Thrown e \<Rightarrow> internalError
                 | Fetched profile profileError \<Rightarrow>
                   if (case profile of None \<Rightarrow> True | Some p \<Rightarrow> profile_status p \<noteq> ''approved'')
                   then errorResponse 403 ''Account not approved''
                   else
                   (case selectConversation env conversationId of
                      Thrown e \<Rightarrow> internalError
                    | Fetched (Some conversation) None \<Rightarrow>
                        if conv_user_id conversation \<noteq> user_id user
                        then errorResponse 404 ''Conversation not found''
                        else
                        (let conversationText =
                               join newline (map (\<lambda>msg. msg_role msg @ '': '' @ msg_content msg) messages);
                             cleanTitle = generateSimpleTitle conversationText
                         in case updateTitle env conversationId cleanTitle of
                              Throws e \<Rightarrow> internalError
                            | Fails updateError \<Rightarrow> errorResponse 500 ''Failed to update title''
                            | Succeeds \<Rightarrow> \<lparr>status = 200, body = JObj [(''title'', JStr cleanTitle)]\<rparr>)
                    | Fetched conversation convError \<Rightarrow>
                        errorResponse 404 ''Conversation not found''))
              | Fetched user authError \<Rightarrow> errorResponse 401 ''Unauthorized''))
      | _ \<Rightarrow> errorResponse 400 ''Invalid request'')"

section \<open>Document upload (routes/documents.js, \<open>POST /\<close>)\<close>

text \<open>
  What the handlers change: the scratch files in \<open>temp/\<close>, the objects of the storage
  bucket, the rows of the \<open>documents\<close> table and the rate limiter of the route.
  \<open>cleanupTempFile\<close> unlinks the file when it exists.
\<close>

record document_row =
  doc_user_id :: string
  doc_title :: string
  doc_content :: string
  doc_file_path :: string
  doc_file_size :: nat
  doc_file_type :: string
  doc_is_company_wide :: bool

record world =
  scratch :: "string set"
  objects :: "string set"
  documents :: "document_row list"
  limiter :: rate_store

definition cleanupTempFile :: "string \<Rightarrow> world \<Rightarrow> world" where
  "cleanupTempFile filePath w =
     (if filePath \<in> scratch w then w\<lparr>scratch := scratch w - {filePath}\<rparr> else w)"

text \<open>
  The request as the handler reads it: \<open>req.file\<close> (the scratch file that multer
  wrote), the body fields and the \<open>Authorization\<close> header. The environment gives the
  outcomes of the calls the handler awaits, the clock reading of the rate limiter and
  the generated object name \<open>`${Date.now()}-${random}${fileExt}`\<close>.
\<close>

record upload_request =
  up_file :: "upload_file option"
  up_title :: "string option"
  up_isCompanyWide :: "json option"
  up_authorization :: "string option"

record upload_env = backend +
  extraction :: extract_env
  clock :: int
  objectName :: string
  storageUpload :: outcome
  insertDocument :: outcome
  insertedId :: string
  storageRemove :: outcome
  isoTime :: string

subsection \<open>The middleware in front of the handler\<close>

definition maxSizePdf :: nat where "maxSizePdf = 10 * 1024 * 1024"

definition maxSizeDocument :: nat where "maxSizeDocument = 50 * 1024 * 1024"

definition maxSizeImage :: nat where "maxSizeImage = 8 * 1024 * 1024"

definition allowedPdf :: "string list" where
  "allowedPdf = [''application/pdf'']"

definition allowedDocument :: "string list" where
  "allowedDocument =
     [''application/msword'',
      ''application/vnd.openxmlformats-officedocument.wordprocessingml.document'',
      ''text/plain'']"

definition allowedImage :: "string list" where
  "allowedImage =
     [''image/png'', ''image/jpeg'', ''image/jpg'', ''image/gif'', ''image/bmp'', ''image/tiff'']"

definition getMaxFileSize :: "string \<Rightarrow> nat" where
  "getMaxFileSize mimetype =
     (if mimetype \<in> set allowedPdf then maxSizePdf
      else if mimetype \<in> set allowedDocument then maxSizeDocument
      else if mimetype \<in> set allowedImage then maxSizeImage
      else maxSizeDocument)"

definition isAllowedFileType :: "string \<Rightarrow> bool" where
  "isAllowedFileType mimetype = (mimetype \<in> set (allowedPdf @ allowedDocument @ allowedImage))"

text \<open>
  The \<open>fileFilter\<close> of the route's multer instance: a file of another type is refused
  with an error before it is written and before the handler runs.
\<close>

definition documentsFileFilter :: "string \<Rightarrow> bool" where
  "documentsFileFilter mimetype = (mimetype \<in> set (allowedPdf @ allowedDocument))"

definition getAllowedFileTypes :: json where
  "getAllowedFileTypes =
     JObj [(''pdf'', JArr (map JStr allowedPdf)),
           (''documents'', JArr (map JStr allowedDocument)),
           (''images'', JArr (map JStr allowedImage))]"

text \<open>
  \<open>validateFile\<close>: \<open>None\<close> stands for \<open>next()\<close>, \<open>Some\<close> for the response it sends.
  Neither rejection unlinks the scratch file.
\<close>

definition validateFile :: "upload_file option \<Rightarrow> response option" where
  "validateFile reqFile =
     (case reqFile of
        None \<Rightarrow> None
      | Some file \<Rightarrow>
          (let maxSize = getMaxFileSize (file_mimetype file)
           in if file_size file > maxSize
              then Some \<lparr>status = 400,
                         body = JObj [(''error'', JStr ''File size exceeds limit''),
                                      (''maxSize'',
                                       JStr (show_nat ((maxSize + 524288) div (1024 * 1024)) @ ''MB''))]\<rparr>
              else if \<not> isAllowedFileType (file_mimetype file)
              then Some \<lparr>status = 400,
                         body = JObj [(''error'', JStr ''Invalid file type''),
                                      (''allowedTypes'', getAllowedFileTypes)]\<rparr>
              else None))"

text \<open>
  \<open>validate(schema)\<close>: the argument \<open>schema\<close> stands for \<open>schema.validate\<close> of the Joi
  library, which yields the error details or the converted value that replaces
  \<open>req.body\<close>.
\<close>

definition validate :: "('b \<Rightarrow> json list + 'b) \<Rightarrow> string \<Rightarrow> 'b \<Rightarrow> response + 'b" where
  "validate schema timestamp reqBody =
     (case schema reqBody of
        Inl details \<Rightarrow>
          Inl \<lparr>status = 400,
                body = JObj [(''error'', JStr ''Validation failed''), (''details'', JArr details),
                             (''timestamp'', JStr timestamp)]\<rparr>
      | Inr v \<Rightarrow> Inr v)"

text \<open>
  The schema \<open>validationSchemas.uploadDocument\<close> of utils/validation.js as Joi reads it
  with \<open>convert\<close>: \<open>title\<close> is required, is trimmed and must then have 1 to 255
  characters; \<open>isCompanyWide\<close> is a boolean, also given as the string \<open>true\<close> or
  \<open>false\<close>, with default \<open>false\<close>. All errors are collected. An entry of
  \<open>details\<close> has the keys \<open>field\<close> and \<open>message\<close>, and \<open>value\<close> with the
  offending value as Joi reports it (the title after trimming) when there is one; a key
  whose value is \<open>undefined\<close> is left out of the JSON.
\<close>

definition detail :: "string \<Rightarrow> string \<Rightarrow> json option \<Rightarrow> json" where
  "detail field msg offending =
     JObj ([(''field'', JStr field), (''message'', JStr (dquote @ field @ dquote @ msg))]
           @ (case offending of None \<Rightarrow> [] | Some v \<Rightarrow> [(''value'', v)]))"

definition uploadDocumentSchema ::
  "string option \<times> json option \<Rightarrow> json list + (string option \<times> json option)" where
  "uploadDocumentSchema reqBody =
     (let title = (case fst reqBody of
                     None \<Rightarrow> Inl [detail ''title'' '' is required'' None]
                   | Some t \<Rightarrow>
                       if trim t = []
                       then Inl [detail ''title'' '' is not allowed to be empty'' (Some (JStr []))]
                       else if length (trim t) > 255
                       then Inl [detail ''title''
                                   '' length must be less than or equal to 255 characters long''
                                   (Some (JStr (trim t)))]
                       else Inr (trim t));
          isCompanyWide =
            (case snd reqBody of
               None \<Rightarrow> Inr False
             | Some (JBoolean b) \<Rightarrow> Inr b
             | Some (JStr v) \<Rightarrow>
                 if toLowerCase v = ''true'' then Inr True
                 else if toLowerCase v = ''false'' then Inr False
                 else Inl [detail ''isCompanyWide'' '' must be a boolean'' (Some (JStr v))]
             | Some other \<Rightarrow> Inl [detail ''isCompanyWide'' '' must be a boolean'' (Some other)])
      in case (title, isCompanyWide) of
           (Inr t, Inr b) \<Rightarrow> Inr (Some t, Some (JBoolean b))
         | (Inl e1, Inl e2) \<Rightarrow> Inl (e1 @ e2)
         | (Inl e1, Inr b) \<Rightarrow> Inl e1
         | (Inr t, Inl e2) \<Rightarrow> Inl e2)"

subsection \<open>The handler\<close>

text \<open>
  The \<open>catch\<close> at the end of the handler: it unlinks \<open>req.file.path\<close> and answers 500.
  In the source the handler is wrapped in \<open>asyncHandler\<close> and the \<open>try\<close> that this
  \<open>catch\<close> closes is missing; the model reads it as enclosing the whole body, so that
  every error thrown by an awaited call ends here.
\<close>

definition uploadCatch :: "upload_request \<Rightarrow> string \<Rightarrow> world \<Rightarrow> response \<times> world" where
  "uploadCatch req message w =
     (\<lparr>status = 500,
       body = JObj [(''error'', JStr ''Internal server error''), (''details'', JStr message)]\<rparr>,
      (case up_file req of
         None \<Rightarrow> w
       | Some file \<Rightarrow> if file_path file \<noteq> [] then cleanupTempFile (file_path file) w else w))"

definition documentJson :: "string \<Rightarrow> document_row \<Rightarrow> json" where
  "documentJson rowId row =
     JObj [(''id'', JStr rowId), (''user_id'', JStr (doc_user_id row)),
           (''title'', JStr (doc_title row)), (''content'', JStr (doc_content row)),
           (''file_path'', JStr (doc_file_path row)),
           (''file_size'', JNum (int (doc_file_size row))),
           (''file_type'', JStr (doc_file_type row)),
           (''is_company_wide'', JBoolean (doc_is_company_wide row))]"

text \<open>
  From the text extraction on: read the scratch file, upload it, insert the row, and
  remove the uploaded object again when the insert fails.
\<close>

definition uploadStore ::
  "'a upload_env_scheme \<Rightarrow> upload_request \<Rightarrow> upload_file \<Rightarrow> string \<Rightarrow> auth_user \<Rightarrow> world
     \<Rightarrow> response \<times> world" where
  "uploadStore env req file title user w =
     (case extractTextFromFile (extraction env) file (file_path file) of
        Inl e \<Rightarrow> uploadCatch req e w
      | Inr extractedText \<Rightarrow>
          (let filePath = user_id user @ ''/'' @ objectName env
           in if file_path file \<notin> scratch w
              then uploadCatch req
                     (''ENOENT: no such file or directory, open '' @ squote @ file_path file @ squote) w
              else
              (case storageUpload env of
                 Throws e \<Rightarrow> uploadCatch req e w
               | Fails uploadError \<Rightarrow>
                   (errorResponse 500 uploadError, cleanupTempFile (file_path file) w)
               | Succeeds \<Rightarrow>
                   (let w1 = w\<lparr>objects := insert filePath (objects w)\<rparr>
                    in case insertDocument env of
                         Throws e \<Rightarrow> uploadCatch req e w1
                       | Fails dbError \<Rightarrow>
                           (case storageRemove env of
                              Throws e \<Rightarrow> uploadCatch req e w1
                            | Fails removeError \<Rightarrow>
                                (errorResponse 500 dbError, cleanupTempFile (file_path file) w1)
                            | Succeeds \<Rightarrow>
                                (errorResponse 500 dbError,
                                 cleanupTempFile (file_path file)
                                   (w1\<lparr>objects := objects w1 - {filePath}\<rparr>)))
                       | Succeeds \<Rightarrow>
                           (let row = \<lparr>doc_user_id = user_id user, doc_title = title,
                                       doc_content = extractedText, doc_file_path = filePath,
                                       doc_file_size = file_size file,
                                       doc_file_type = file_mimetype file,
                                       doc_is_company_wide =
                                         (up_isCompanyWide req = Some (JStr ''true''))\<rparr>;
                                w2 = w1\<lparr>documents := documents w1 @ [row]\<rparr>
                            in (\<lparr>status = 200,
                                 body = JObj [(''success'', JBoolean True),
                                              (''document'', documentJson (insertedId env) row),
                                              (''message'', JStr ''Document uploaded successfully'')]\<rparr>,
                                cleanupTempFile (file_path file) w2))))))"

text \<open>After the token has resolved to a user: the rate limit and the profile check.\<close>

definition uploadAuthorized ::
  "'a upload_env_scheme \<Rightarrow> upload_request \<Rightarrow> upload_file \<Rightarrow> string \<Rightarrow> auth_user \<Rightarrow> world
     \<Rightarrow> response \<times> world" where
  "uploadAuthorized env req file title user w =
     (let rateLimitKey = ''upload:'' @ user_id user;
          checked = isAllowed (limiter w) rateLimitKey 10 60000 (clock env);
          w1 = w\<lparr>limiter := snd checked\<rparr>
      in if \<not> fst checked
         then (errorResponse 429 ''Rate limit exceeded'', cleanupTempFile (file_path file) w1)
         else
         (case selectProfile env (user_id user) of
            Thrown e \<Rightarrow> uploadCatch req e w1
          | Fetched p profileError \<Rightarrow>
              if (case p of None \<Rightarrow> True | Some pr \<Rightarrow> profile_status pr \<noteq> ''approved'')
              then (errorResponse 403 ''Account not approved'', cleanupTempFile (file_path file) w1)
              else uploadStore env req file title user w1))"

definition uploadHandler ::
  "'a upload_env_scheme \<Rightarrow> upload_request \<Rightarrow> world \<Rightarrow> response \<times> world" where
  "uploadHandler env req w =
     (case (up_file req, up_title req) of
        (Some file, Some title) \<Rightarrow>
          if title = [] then (errorResponse 400 ''File and title are required'', w)
          else
          (case bearerToken (up_authorization req) of
             None \<Rightarrow> (errorResponse 401 ''Unauthorized'', cleanupTempFile (file_path file) w)
           | Some token \<Rightarrow>
               (case authGetUser env token of
                  Thrown e \<Rightarrow> uploadCatch req e w
                | Fetched (Some user) None \<Rightarrow> uploadAuthorized env req file title user w
                | Fetched user authError \<Rightarrow>
                    (errorResponse 401 ''Unauthorized'', cleanupTempFile (file_path file) w)))
      | _ \<Rightarrow> (errorResponse 400 ''File and title are required'', w))"

text \<open>
  The route after multer has written the scratch file: \<open>validateFile\<close>, then
  \<open>validate(validationSchemas.uploadDocument)\<close>, then the handler on the converted body.
  (\<open>uploadRateLimit\<close>, the limiter by address of express-rate-limit, runs before multer
  and is left out.)
\<close>

definition uploadRoute ::
  "'a upload_env_scheme
     \<Rightarrow> (string option \<times> json option \<Rightarrow> json list + (string option \<times> json option))
     \<Rightarrow> upload_request \<Rightarrow> world \<Rightarrow> response \<times> world" where
  "uploadRoute env schema req w =
     (case validateFile (up_file req) of
        Some rejected \<Rightarrow> (rejected, w)
      | None \<Rightarrow>
          (case validate schema (isoTime env) (up_title req, up_isCompanyWide req) of
             Inl rejected \<Rightarrow> (rejected, w)
           | Inr v \<Rightarrow> uploadHandler env (req\<lparr>up_title := fst v, up_isCompanyWide := snd v\<rparr>) w))"

subsection \<open>Fixtures\<close>

text \<open>
  A request of the approved user \<open>alice\<close> with a small text file, and an environment
  in which the upload succeeds; the outcomes of the insert and of the compensating
  remove are arguments.
\<close>

definition exampleFile :: upload_file where
  "exampleFile =
     \<lparr>file_path = ''temp/file-17.txt'', file_mimetype = ''text/plain'',
      file_originalname = ''note.txt'', file_size = 10\<rparr>"

definition exampleRequest :: "string option \<Rightarrow> upload_request" where
  "exampleRequest title =
     \<lparr>up_file = Some exampleFile, up_title = title, up_isCompanyWide = Some (JStr ''false''),
      up_authorization = Some ''Bearer tok-alice''\<rparr>"

definition exampleEnv :: "outcome \<Rightarrow> outcome \<Rightarrow> upload_env" where
  "exampleEnv inserted removed =
     \<lparr>authGetUser = (\<lambda>t. if t = ''tok-alice''
                          then Fetched (Some \<lparr>user_id = ''alice'', user_email = ''alice@example.org''\<rparr>) None
                          else Fetched None (Some ''invalid token'')),
      selectProfile = (\<lambda>i. Fetched (Some \<lparr>profile_status = ''approved'', profile_role = ''user'',
                                            profile_email = ''alice@example.org''\<rparr>) None),
      extraction = \<lparr>readFileUtf8 = (\<lambda>p. Inr ''short note''),
                    pdfParseText = (\<lambda>p. Inl ''unused''), mammothRawText = (\<lambda>p. Inl ''unused''),
                    localeDate = ''3/11/2026''\<rparr>,
      clock = 1000, objectName = ''1762153200000-k3j9x2.txt'', storageUpload = Succeeds,
      insertDocument = inserted, insertedId = ''doc-1'', storageRemove = removed,
      isoTime = ''2026-11-03T07:00:00.000Z''\<rparr>"

definition exampleWorld :: world where
  "exampleWorld =
     \<lparr>scratch = {''temp/file-17.txt''}, objects = {}, documents = [], limiter = Map.empty\<rparr>"

section \<open>The extraction pipeline (app.js, \<open>POST /extract\<close>, with services/storage-service.js)\<close>

text \<open>
  The environment of the pipeline: the libraries behind the three services, the outcomes
  of the three calls to the storage bucket, the generated names of the object and of the
  downloaded scratch file, the measured processing time and the time stamp.
\<close>

record storage_info =
  info_path :: string
  info_fileName :: string
  info_fullPath :: string

record pipeline_env =
  libraries :: extract_env
  recognize :: "string \<Rightarrow> string + ocr_data"
  elapsed :: int
  uploadName :: string
  bucketUpload :: outcome
  bucketDownload :: outcome
  downloadPath :: string
  bucketRemove :: outcome
  timestamp :: string

datatype service = PdfService | DocService | OcrService

definition getServiceForFile :: "string \<Rightarrow> service option" where
  "getServiceForFile mimetype =
     (if mimetype = ''application/pdf'' then Some PdfService
      else if mimetype = ''application/msword''
              \<or> mimetype = ''application/vnd.openxmlformats-officedocument.wordprocessingml.document''
           then Some DocService
      else if prefix ''image/'' mimetype then Some OcrService
      else None)"

text \<open>The \<open>fileFilter\<close> of the multer instance of app.js.\<close>

definition extractFileFilter :: "string \<Rightarrow> bool" where
  "extractFileFilter mimetype =
     (mimetype \<in> set [''application/pdf'', ''application/msword'',
        ''application/vnd.openxmlformats-officedocument.wordprocessingml.document'',
        ''image/png'', ''image/jpeg'', ''image/jpg'', ''image/gif'', ''image/bmp'', ''image/tiff''])"

text \<open>
  \<open>service.extractText(filePath)\<close>, as far as the pipeline reads its result: the text
  and the processing time, or the message of the error that the service throws.
\<close>

definition serviceExtractText ::
  "pipeline_env \<Rightarrow> service \<Rightarrow> string \<Rightarrow> string + (string \<times> string)" where
  "serviceExtractText env srv filePath =
     (case srv of
        PdfService \<Rightarrow>
          (case pdfParseText (libraries env) filePath of
             Inl message \<Rightarrow> Inl (''PDF extraction failed: '' @ message)
           | Inr t \<Rightarrow> Inr (trim t, show_int (elapsed env) @ ''ms''))
      | DocService \<Rightarrow>
          (case mammothRawText (libraries env) filePath of
             Inl message \<Rightarrow> Inl (''Document extraction failed: '' @ message)
           | Inr t \<Rightarrow> Inr (trim t, show_int (elapsed env) @ ''ms''))
      | OcrService \<Rightarrow>
          (case ocrExtractText (recognize env filePath) ''eng'' (elapsed env) of
             Inl message \<Rightarrow> Inl message
           | Inr r \<Rightarrow> Inr (result_text r, result_processingTime r)))"

text \<open>The storage service. Its \<open>cleanupTempFile\<close> is the \<open>cleanupTempFile\<close> above.\<close>

definition storageUploadFile ::
  "pipeline_env \<Rightarrow> string \<Rightarrow> world \<Rightarrow> (string + storage_info) \<times> world" where
  "storageUploadFile env filePath w =
     (if filePath \<notin> scratch w
      then (Inl (''ENOENT: no such file or directory, open '' @ squote @ filePath @ squote), w)
      else
      (case bucketUpload env of
         Throws e \<Rightarrow> (Inl e, w)
       | Fails message \<Rightarrow> (Inl (''Upload failed: '' @ message), w)
       | Succeeds \<Rightarrow>
           (Inr \<lparr>info_path = uploadName env, info_fileName = uploadName env,
                 info_fullPath = ''documents/'' @ uploadName env\<rparr>,
            w\<lparr>objects := insert (uploadName env) (objects w)\<rparr>)))"

definition storageDownloadFile ::
  "pipeline_env \<Rightarrow> string \<Rightarrow> world \<Rightarrow> (string + string) \<times> world" where
  "storageDownloadFile env storagePath w =
     (case bucketDownload env of
        Throws e \<Rightarrow> (Inl e, w)
      | Fails message \<Rightarrow> (Inl (''Download failed: '' @ message), w)
      | Succeeds \<Rightarrow> (Inr (downloadPath env), w\<lparr>scratch := insert (downloadPath env) (scratch w)\<rparr>))"

definition storageDeleteFile :: "pipeline_env \<Rightarrow> string \<Rightarrow> world \<Rightarrow> bool \<times> world" where
  "storageDeleteFile env storagePath w =
     (case bucketRemove env of
        Succeeds \<Rightarrow> (True, w\<lparr>objects := objects w - {storagePath}\<rparr>)
      | Throws e \<Rightarrow> (False, w)
      | Fails message \<Rightarrow> (False, w))"

text \<open>\<open>text.split(/\\s+/).filter(word => word.length > 0).length\<close>.\<close>

fun countWords :: "bool \<Rightarrow> string \<Rightarrow> nat" where
  "countWords inWord [] = 0"
| "countWords inWord (c # cs) =
     (if isWhiteSpace c then countWords False cs
      else (if inWord then 0 else 1) + countWords True cs)"

text \<open>
  The three statements that both the branch for a missing service and the inner
  \<open>catch\<close> run: unlink the uploaded scratch file, unlink the downloaded one if there is
  one, delete the stored object if there is one.
\<close>

definition releaseFiles ::
  "pipeline_env \<Rightarrow> string \<Rightarrow> string option \<Rightarrow> storage_info option \<Rightarrow> world \<Rightarrow> world" where
  "releaseFiles env tempFilePath downloadedFilePath storageInfo w =
     (let w1 = cleanupTempFile tempFilePath w;
          w2 = (case downloadedFilePath of
                  None \<Rightarrow> w1
                | Some d \<Rightarrow> if d \<noteq> [] then cleanupTempFile d w1 else w1)
      in case storageInfo of
           None \<Rightarrow> w2
         | Some info \<Rightarrow> snd (storageDeleteFile env (info_path info) w2))"

text \<open>The outer \<open>catch\<close>.\<close>

definition extractCatch :: "pipeline_env \<Rightarrow> upload_file \<Rightarrow> string \<Rightarrow> world \<Rightarrow> response \<times> world" where
  "extractCatch env file message w =
     (\<lparr>status = 500,
       body = JObj [(''error'', JStr ''Text extraction failed''), (''message'', JStr message),
                    (''timestamp'', JStr (timestamp env))]\<rparr>,
      if file_path file \<noteq> [] then cleanupTempFile (file_path file) w else w)"

definition unsupportedType :: response where
  "unsupportedType =
     \<lparr>status = 400,
      body = JObj [(''error'', JStr ''Unsupported file type''),
                   (''message'', JStr ''Please upload a PDF, DOC, DOCX, or image file'')]\<rparr>"

definition extractHandler :: "pipeline_env \<Rightarrow> upload_file option \<Rightarrow> world \<Rightarrow> response \<times> world" where
  "extractHandler env reqFile w =
     (case reqFile of
        None \<Rightarrow>
          (\<lparr>status = 400,
            body = JObj [(''error'', JStr ''No file uploaded''),
                         (''message'', JStr ''Please upload a file to extract text from'')]\<rparr>, w)
      | Some file \<Rightarrow>
          (let tempFilePath = file_path file
           in case storageUploadFile env tempFilePath w of
                (Inl storageError, w1) \<Rightarrow>
                  extractCatch env file storageError (releaseFiles env tempFilePath None None w1)
              | (Inr storageInfo, w1) \<Rightarrow>
                  (case storageDownloadFile env (info_path storageInfo) w1 of
                     (Inl storageError, w2) \<Rightarrow>
                       extractCatch env file storageError
                         (releaseFiles env tempFilePath None (Some storageInfo) w2)
                   | (Inr downloadedFilePath, w2) \<Rightarrow>
                       (case getServiceForFile (file_mimetype file) of
                          None \<Rightarrow>
                            (unsupportedType,
                             releaseFiles env tempFilePath (Some downloadedFilePath)
                               (Some storageInfo) w2)
                        | Some srv \<Rightarrow>
                            (case serviceExtractText env srv downloadedFilePath of
                               Inl storageError \<Rightarrow>
                                 extractCatch env file storageError
                                   (releaseFiles env tempFilePath (Some downloadedFilePath)
                                      (Some storageInfo) w2)
                             | Inr (text, processingTime) \<Rightarrow>
                                 (\<lparr>status = 200,
                                   body = JObj [(''success'', JBoolean True),
                                                (''filename'', JStr (file_originalname file)),
                                                (''fileType'', JStr (file_mimetype file)),
                                                (''fileSize'', JNum (int (file_size file))),
                                                (''storageInfo'',
                                                 JObj [(''path'', JStr (info_path storageInfo)),
                                                       (''fileName'', JStr (info_fileName storageInfo))]),
                                                (''extractedText'', JStr text),
                                                (''wordCount'', JNum (int (countWords False text))),
                                                (''processingTime'', JStr processingTime),
                                                (''timestamp'', JStr (timestamp env))]\<rparr>,
                                  (let w3 = cleanupTempFile tempFilePath w2
                                   in if downloadedFilePath \<noteq> []
                                      then cleanupTempFile downloadedFilePath w3 else w3)))))))"

text \<open>
  The route in front of the handler. \<open>upload.single('file')\<close> is multer, a library
  outside the repository, configured in app.js with the \<open>fileFilter\<close> above and
  \<open>limits.fileSize\<close> of 10 MB. As multer documents it: the filter is asked before
  anything is stored, and an error given to its callback ends the request with that
  error; a file longer than the limit ends it with a \<open>MulterError\<close> of code
  \<open>LIMIT_FILE_SIZE\<close>, the part already written being removed; otherwise the file is
  written to the scratch directory and the handler runs with \<open>req.file\<close>. A request
  without a file part reaches the handler without \<open>req.file\<close>. The argument of the
  model is the file part of the request, \<open>file_path\<close> being the name that the
  \<open>filename\<close> callback chooses for it.
\<close>

datatype route_error = MulterError string string | PlainError string

definition uploadSingle ::
  "upload_file option \<Rightarrow> world \<Rightarrow> (route_error + upload_file option) \<times> world" where
  "uploadSingle part w =
     (case part of
        None \<Rightarrow> (Inr None, w)
      | Some file \<Rightarrow>
          if \<not> extractFileFilter (file_mimetype file)
          then (Inl (PlainError ''Unsupported file type''), w)
          else if file_size file > 10 * 1024 * 1024
          then (Inl (MulterError ''LIMIT_FILE_SIZE'' ''File too large''), w)
          else (Inr (Some file), w\<lparr>scratch := insert (file_path file) (scratch w)\<rparr>))"

text \<open>The error handling middleware at the end of app.js.\<close>

definition errorMiddleware :: "route_error \<Rightarrow> response" where
  "errorMiddleware e =
     (case e of
        MulterError code message \<Rightarrow>
          if code = ''LIMIT_FILE_SIZE''
          then \<lparr>status = 400,
                body = JObj [(''error'', JStr ''File too large''),
                             (''message'', JStr ''File size must be less than 10MB'')]\<rparr>
          else \<lparr>status = 500,
                body = JObj [(''error'', JStr ''Internal server error''),
                             (''message'', JStr message)]\<rparr>
      | PlainError message \<Rightarrow>
          \<lparr>status = 500,
           body = JObj [(''error'', JStr ''Internal server error''),
                        (''message'', JStr message)]\<rparr>)"

text \<open>\<open>app.post('/extract', upload.single('file'), handler)\<close> with that middleware.\<close>

definition extractRoute :: "pipeline_env \<Rightarrow> upload_file option \<Rightarrow> world \<Rightarrow> response \<times> world" where
  "extractRoute env part w =
     (case uploadSingle part w of
        (Inl e, w1) \<Rightarrow> (errorMiddleware e, w1)
      | (Inr reqFile, w1) \<Rightarrow> extractHandler env reqFile w1)"

subsection \<open>Fixtures of the pipeline\<close>

definition examplePipeline :: pipeline_env where
  "examplePipeline =
     \<lparr>libraries = \<lparr>readFileUtf8 = (\<lambda>p. Inr ''short note''),
                   pdfParseText = (\<lambda>p. Inl ''Invalid PDF structure''),
                   mammothRawText = (\<lambda>p. Inl ''unused''), localeDate = ''3/11/2026''\<rparr>,
      recognize = (\<lambda>p. Inl ''unused''), elapsed = 12,
      uploadName = ''1762153200000-424242.zip'', bucketUpload = Succeeds,
      bucketDownload = Succeeds, downloadPath = ''temp/temp-1762153200100-1762153200000-424242.zip'',
      bucketRemove = Succeeds, timestamp = ''2026-11-03T07:00:00.000Z''\<rparr>"

definition exampleArchive :: upload_file where
  "exampleArchive =
     \<lparr>file_path = ''temp/file-19.zip'', file_mimetype = ''application/zip'',
      file_originalname = ''bundle.zip'', file_size = 2048\<rparr>"

chapter \<open>Properties\<close>

section \<open>Rate limiter (routes/chat.js and routes/documents.js, \<open>rateLimiter.isAllowed\<close>)\<close>

subsection \<open>One call\<close>


lemma isAllowed_recorded:
  "recorded (snd (isAllowed requests key N W now)) key =
     (let live = filter (\<lambda>t. now - W < t) (recorded requests key)
      in if int (length live) < N then live @ [now] else live)"
  by (auto simp: isAllowed_def recorded_def Let_def split: option.splits)

lemma isAllowed_other_key:
  "other \<noteq> key \<Longrightarrow> snd (isAllowed requests key N W now) other = requests other"
  by (auto simp: isAllowed_def Let_def)

subsection \<open>A sequence of calls\<close>






text \<open>
  The number of recorded times of a key never exceeds \<open>N\<close> once it is at most \<open>N\<close>, as
  it is in the empty map the limiter starts with.
\<close>

lemma callSequence_recorded_bound:
  "int (length (recorded requests key)) \<le> N \<Longrightarrow>
   int (length (recorded (snd (callSequence requests key N W nows)) key)) \<le> N"
proof (induction nows arbitrary: requests)
  case Nil
  then show ?case by simp
next
  case (Cons now nows)
  let ?live = "filter (\<lambda>t. now - W < t) (recorded requests key)"
  have "length ?live \<le> length (recorded requests key)" by (rule length_filter_le)
  with Cons.prems have "int (length ?live) \<le> N" by linarith
  then have "int (length (recorded (snd (isAllowed requests key N W now)) key)) \<le> N"
    unfolding isAllowed_recorded Let_def by auto
  from Cons.IH[OF this] show ?case by (simp add: split_beta)
qed



section \<open>JavaScript strings\<close>

lemma str_includes_sublist: "str_includes s sub \<longleftrightarrow> sublist sub s"
  by (induction s) (auto simp: sublist_Cons_right)

lemma str_includes_append: "str_includes (pre @ sub @ post) sub"
  by (auto simp: str_includes_sublist sublist_def)

lemma str_includes_map:
  assumes "str_includes s sub" shows "str_includes (map f s) (map f sub)"
proof -
  from assms obtain pre post where "s = pre @ sub @ post"
    by (auto simp: str_includes_sublist sublist_def)
  then have "map f s = map f pre @ map f sub @ map f post" by simp
  then show ?thesis by (metis str_includes_append)
qed

section \<open>Chat context assembly (routes/chat.js)\<close>

subsection \<open>The match path: \<open>searchDocuments\<close>\<close>

lemma mentionsAttachment_keyword:
  assumes "keyword \<in> set attachmentKeywords" and "str_includes query keyword"
  shows "mentionsAttachment query"
proof -
  have lower: "toLowerCase keyword = keyword"
    using assms(1)
    by (auto simp: attachmentKeywords_def toLowerCase_def toLowerCaseChar_def isUpperCaseChar_def)
  have "str_includes (toLowerCase query) (toLowerCase keyword)"
    unfolding toLowerCase_def using assms(2) by (rule str_includes_map)
  with lower assms(1) show ?thesis
    by (auto simp: mentionsAttachment_def list_ex_iff)
qed

text \<open>
  C10. Whatever the query and the fetched rows, the chunks that \<open>searchDocuments\<close>
  returns with limit 8 are the first 8 rows, in fetch order, whose content contains the
  query case-insensitively: there are at most 8 of them, each carries the similarity
  0.8, and when more than 8 rows match, exactly 8 are returned and the others are left
  out.
\<close>

theorem searchDocuments_first_eight:
  "(let matching = filter (matchesQuery query) fetchedRows;
        chunks = map toChunk (take 8 matching)
    in searchDocuments query (Fetched (Some fetchedRows) err) 8 = Inr chunks
       \<and> length chunks \<le> 8
       \<and> map document_id chunks = take 8 (map row_id matching)
       \<and> (\<forall>ch\<in>set chunks. chunk_similarity ch = 0.8)
       \<and> (8 < length matching \<longrightarrow> length chunks = 8 \<and> length chunks < length matching))"
  by (auto simp: searchDocuments_def Let_def toChunk_def take_map)

theorem searchDocuments_first_eight_witness:
  "map document_id
     (projr (searchDocuments ''revenue''
        (Fetched (Some (map (\<lambda>(i, c). \<lparr>row_id = i, row_title = ''t'', row_content = Some c\<rparr>)
           [(''doc1'', ''Q3 Revenue''), (''doc2'', ''notes''), (''doc3'', ''revenue''), (''doc4'', ''REVENUE''),
            (''doc5'', ''revenue''), (''doc6'', ''revenue''), (''doc7'', ''revenue''), (''doc8'', ''revenue''),
            (''doc9'', ''revenue''), (''doc10'', ''revenue''), (''doc11'', ''revenue'')])) None) 8))
   = [''doc1'', ''doc3'', ''doc4'', ''doc5'', ''doc6'', ''doc7'', ''doc8'', ''doc9'']"
  using searchDocuments_first_eight [of "''revenue''"
      "map (\<lambda>(i, c). \<lparr>row_id = i, row_title = ''t'', row_content = Some c\<rparr>)
           [(''doc1'', ''Q3 Revenue''), (''doc2'', ''notes''), (''doc3'', ''revenue''), (''doc4'', ''REVENUE''),
            (''doc5'', ''revenue''), (''doc6'', ''revenue''), (''doc7'', ''revenue''), (''doc8'', ''revenue''),
            (''doc9'', ''revenue''), (''doc10'', ''revenue''), (''doc11'', ''revenue'')]" None]
  by (simp add: Let_def matchesQuery_def toLowerCase_def toLowerCaseChar_def isUpperCaseChar_def)

subsection \<open>The fallback path of the source list\<close>

lemma join_nonempty:
  "xs \<noteq> [] \<Longrightarrow> \<forall>x\<in>set xs. x \<noteq> [] \<Longrightarrow> join sep xs \<noteq> []"
  by (induction sep xs rule: join.induct) auto

lemma assembleDocuments_nonempty:
  assumes "selectedDocuments \<noteq> []"
  shows "assembleDocuments selectedDocuments \<noteq> []"
proof (cases "filter sufficientContent selectedDocuments = []")
  case True
  have "join newline (map noContentNote selectedDocuments) \<noteq> []"
    using assms by (intro join_nonempty) (auto simp: noContentNote_def)
  with True show ?thesis by (simp add: assembleDocuments_def)
next
  case False
  then have "join (newline @ newline) (map documentBlock (filter sufficientContent selectedDocuments)) \<noteq> []"
    by (intro join_nonempty) (auto simp: documentBlock_def)
  with False show ?thesis by (simp add: assembleDocuments_def)
qed

lemma searchDocuments_no_match:
  assumes "\<forall>doc\<in>set fetchedRows. \<not> matchesQuery userQuery doc"
  shows "searchDocuments userQuery (Fetched (Some fetchedRows) err) limit = Inr []"
  using assms by (simp add: searchDocuments_def filter_False)

lemma streamContext_fetched:
  assumes "ids \<noteq> []" and "fetchedRows \<noteq> []"
  shows "streamContext userQuery (Some ids) (Fetched (Some fetchedRows) None) searchFetch =
           (if mentionsAttachment userQuery
            then enhanceContextForAttachments (assembleDocuments fetchedRows)
            else assembleDocuments fetchedRows,
            assembleSources userQuery fetchedRows searchFetch)"
  using assms assembleDocuments_nonempty[OF assms(2)]
  by (simp add: streamContext_def)

text \<open>
  C7, as the code has it. The query mentions an attachment keyword
  (case-insensitively), the request names at least one document id, the query for the
  selected documents returns at least one row, and no row's content contains the query
  as a case-insensitive substring. Then the source list is, in fetch order, one entry
  for every fetched row with non-empty content: its id and title, the score 0.95, which
  is above the 0.8 of the match path, and the first 300 characters of the content
  followed by \<open>...\<close> exactly when the content is longer; and the context starts with
  the attachment explanation.
\<close>

theorem streamContext_fallback_sources:
  assumes "mentionsAttachment userQuery"
      and "ids \<noteq> []" and "fetchedRows \<noteq> []"
      and "\<forall>doc\<in>set fetchedRows. \<forall>c. row_content doc = Some c \<longrightarrow>
             \<not> str_includes (toLowerCase c) (toLowerCase userQuery)"
  shows "(let (context, sources) =
             streamContext userQuery (Some ids) (Fetched (Some fetchedRows) None)
               (Fetched (Some fetchedRows) err)
         in sources = map (docSource 0.95) (filter hasContent fetchedRows)
            \<and> (\<forall>doc\<in>set fetchedRows. \<forall>c. row_content doc = Some c \<and> c \<noteq> [] \<longrightarrow>
                  \<lparr>documentId = row_id doc, documentTitle = row_title doc, similarity = 0.95,
                   content = take 300 c @ (if 300 < length c then ''...'' else [])\<rparr> \<in> set sources)
            \<and> (\<forall>src\<in>set sources. \<forall>doc. chunk_similarity (toChunk doc) < similarity src)
            \<and> prefix attachmentExplanation context)"
proof -
  have nomatch: "\<forall>doc\<in>set fetchedRows. \<not> matchesQuery userQuery doc"
    using assms(4) by (auto simp: matchesQuery_def split: option.splits)
  have sources: "assembleSources userQuery fetchedRows (Fetched (Some fetchedRows) err)
                   = map (docSource 0.95) (filter hasContent fetchedRows)"
    by (simp add: assembleSources_def searchDocuments_no_match[OF nomatch])
  have member: "\<lparr>documentId = row_id doc, documentTitle = row_title doc, similarity = 0.95,
                  content = take 300 c @ (if 300 < length c then ''...'' else [])\<rparr>
                \<in> set (map (docSource 0.95) (filter hasContent fetchedRows))"
    if "doc \<in> set fetchedRows" and "row_content doc = Some c" and "c \<noteq> []" for doc c
  proof -
    from that have "doc \<in> set (filter hasContent fetchedRows)" by (simp add: hasContent_def)
    moreover from that have "docSource 0.95 doc =
        \<lparr>documentId = row_id doc, documentTitle = row_title doc, similarity = 0.95,
         content = take 300 c @ (if 300 < length c then ''...'' else [])\<rparr>"
      by (simp add: docSource_def excerpt_def)
    ultimately show ?thesis by (metis image_eqI set_map)
  qed
  have score: "\<forall>src\<in>set (map (docSource 0.95) (filter hasContent fetchedRows)).
                 \<forall>doc. chunk_similarity (toChunk doc) < similarity src"
    by (simp add: docSource_def toChunk_def)
  show ?thesis
    unfolding streamContext_fetched[OF assms(2,3)] sources
    using assms(1) member score
    by (simp add: enhanceContextForAttachments_def)
qed

theorem streamContext_fallback_sources_witness:
  "snd (streamContext ''What is in the attachment?'' (Some [''d1'', ''d2'', ''d3''])
          (Fetched (Some [\<lparr>row_id = ''d1'', row_title = ''Q3'', row_content = Some ''quarterly revenue''\<rparr>,
                          \<lparr>row_id = ''d2'', row_title = ''scan'', row_content = None\<rparr>,
                          \<lparr>row_id = ''d3'', row_title = ''blank'', row_content = Some []\<rparr>]) None)
          (Fetched (Some [\<lparr>row_id = ''d1'', row_title = ''Q3'', row_content = Some ''quarterly revenue''\<rparr>,
                          \<lparr>row_id = ''d2'', row_title = ''scan'', row_content = None\<rparr>,
                          \<lparr>row_id = ''d3'', row_title = ''blank'', row_content = Some []\<rparr>]) None))
     = [\<lparr>documentId = ''d1'', documentTitle = ''Q3'', similarity = 0.95, content = ''quarterly revenue''\<rparr>]
   \<and> prefix attachmentExplanation
        (fst (streamContext ''What is in the attachment?'' (Some [''d1'', ''d2'', ''d3''])
          (Fetched (Some [\<lparr>row_id = ''d1'', row_title = ''Q3'', row_content = Some ''quarterly revenue''\<rparr>,
                          \<lparr>row_id = ''d2'', row_title = ''scan'', row_content = None\<rparr>,
                          \<lparr>row_id = ''d3'', row_title = ''blank'', row_content = Some []\<rparr>]) None)
          (Fetched (Some [\<lparr>row_id = ''d1'', row_title = ''Q3'', row_content = Some ''quarterly revenue''\<rparr>,
                          \<lparr>row_id = ''d2'', row_title = ''scan'', row_content = None\<rparr>,
                          \<lparr>row_id = ''d3'', row_title = ''blank'', row_content = Some []\<rparr>]) None)))"
proof -
  have mentions: "mentionsAttachment ''What is in the attachment?''"
    by (simp add: mentionsAttachment_def attachmentKeywords_def toLowerCase_def
        toLowerCaseChar_def isUpperCaseChar_def)
  have nomatch: "\<forall>doc\<in>set [\<lparr>row_id = ''d1'', row_title = ''Q3'', row_content = Some ''quarterly revenue''\<rparr>,
                          \<lparr>row_id = ''d2'', row_title = ''scan'', row_content = None\<rparr>,
                          \<lparr>row_id = ''d3'', row_title = ''blank'', row_content = Some []\<rparr>].
       \<forall>c. row_content doc = Some c \<longrightarrow>
         \<not> str_includes (toLowerCase c) (toLowerCase ''What is in the attachment?'')"
    by (simp add: toLowerCase_def toLowerCaseChar_def isUpperCaseChar_def)
  from streamContext_fallback_sources [OF mentions _ _ nomatch, of "[''d1'', ''d2'', ''d3'']" None]
  show ?thesis
    by (simp add: split_beta Let_def hasContent_def docSource_def excerpt_def)
qed

text \<open>
  C7 as stated fails when the query for the selected documents returns no row: the
  handler prefixes the explanation only to a non-empty context
  (\<open>userMentionsAttachment && context\<close>), and with no row the context is empty.
\<close>

theorem streamContext_prefix_counterexample:
  "mentionsAttachment ''what is in the file''
   \<and> streamContext ''what is in the file'' (Some [''d1''])
        (Fetched (Some []) None) (Fetched (Some []) None) = ([], [])
   \<and> \<not> prefix attachmentExplanation
        (fst (streamContext ''what is in the file'' (Some [''d1''])
               (Fetched (Some []) None) (Fetched (Some []) None)))"
  by (simp add: mentionsAttachment_def attachmentKeywords_def toLowerCase_def
      toLowerCaseChar_def isUpperCaseChar_def streamContext_def attachmentExplanation_def)

section \<open>OCR extractor (services/ocr-service.js)\<close>

lemma trim_Nil: "trim [] = []"
  by (simp add: trim_def)

text \<open>
  C8. When the recognition result has a word list, the post-filter with the default
  threshold 30 joins with single spaces the texts of exactly the words whose confidence
  is at least 30, in order; the extractor returns that text when it is not empty, and
  the unfiltered recognized text when it is empty, as it is when every word is below
  the threshold.
\<close>

theorem ocrExtractText_confidence_filter:
  assumes "data_words data = Some ws"
  shows "(let filtered = join '' '' (map word_text (filter (\<lambda>w. 30 \<le> word_confidence w) ws));
              expected = (if filtered \<noteq> [] then filtered else data_text data)
          in filterLowConfidenceText data 30 = expected
             \<and> map_sum id result_text (ocrExtractText (Inr data) language millis) = Inr expected
             \<and> ((\<forall>w\<in>set ws. word_confidence w < 30) \<longrightarrow> expected = data_text data))"
proof -
  have none: "filter (\<lambda>w. 30 \<le> word_confidence w) ws = []"
    if "\<forall>w\<in>set ws. word_confidence w < 30"
    using that by (auto simp: filter_empty_conv)
  show ?thesis
    using assms none
    by (cases "data_text data = []")
       (auto simp: Let_def filterLowConfidenceText_def ocrExtractText_def trim_Nil)
qed

theorem ocrExtractText_confidence_filter_witness:
  "map_sum id result_text
     (ocrExtractText
        (Inr \<lparr>data_text = ''Hello x% world'', data_confidence = 71.4, data_blocks = Some 1,
              data_paragraphs = Some 1, data_lines = Some 1,
              data_words = Some [\<lparr>word_text = ''Hello'', word_confidence = 95\<rparr>,
                                 \<lparr>word_text = ''x%'', word_confidence = 12.5\<rparr>,
                                 \<lparr>word_text = ''world'', word_confidence = 30\<rparr>],
              data_symbols = None\<rparr>) ''eng'' 1200)
   = Inr ''Hello world''"
  using ocrExtractText_confidence_filter [of
      "\<lparr>data_text = ''Hello x% world'', data_confidence = 71.4, data_blocks = Some 1,
        data_paragraphs = Some 1, data_lines = Some 1,
        data_words = Some [\<lparr>word_text = ''Hello'', word_confidence = 95\<rparr>,
                           \<lparr>word_text = ''x%'', word_confidence = 12.5\<rparr>,
                           \<lparr>word_text = ''world'', word_confidence = 30\<rparr>],
        data_symbols = None\<rparr>"
      "[\<lparr>word_text = ''Hello'', word_confidence = 95\<rparr>,
        \<lparr>word_text = ''x%'', word_confidence = 12.5\<rparr>,
        \<lparr>word_text = ''world'', word_confidence = 30\<rparr>]" "''eng''" 1200]
  by (simp add: Let_def)

section \<open>Text extraction of the documents route (routes/documents.js, \<open>extractTextFromFile\<close>)\<close>

subsection \<open>Printed numbers\<close>








subsection \<open>The fallback texts\<close>





subsection \<open>The threshold and the catch\<close>





section \<open>Conversation titles (routes/conversations.js)\<close>

text \<open>
  C9. The caller's token resolves to a user with an approved profile, and the request's
  conversation id is that of an existing conversation of another user. Then the
  response is never 403 and is the very response given when no conversation has that
  id; for a request that the handler accepts as well-formed (an id and at least one
  message, checked before anything else) it is 404 "Conversation not found".
\<close>

theorem generateTitle_foreign_conversation_404:
  assumes "bearerToken (title_authorization req) = Some token"
      and "authGetUser env token = Fetched (Some user) None"
      and "selectProfile env (user_id user) = Fetched (Some p) profileError"
      and "profile_status p = ''approved''"
      and "title_conversationId req = Some conversationId"
      and "selectConversation env conversationId = Fetched (Some conversation) None"
      and "conv_user_id conversation \<noteq> user_id user"
  shows "status (generateTitleHandler env req) \<noteq> 403
       \<and> generateTitleHandler env req =
           generateTitleHandler
             (env\<lparr>selectConversation := \<lambda>i. Fetched None (Some ''no rows'')\<rparr>) req
       \<and> (conversationId \<noteq> [] \<and> (\<exists>messages. title_messages req = Some messages \<and> messages \<noteq> [])
            \<longrightarrow> generateTitleHandler env req = errorResponse 404 ''Conversation not found'')"
  using assms
  by (auto simp: generateTitleHandler_def errorResponse_def split: option.splits)

theorem generateTitle_foreign_conversation_404_witness:
  "generateTitleHandler
     \<lparr>authGetUser = (\<lambda>t. if t = ''tok-alice''
                          then Fetched (Some \<lparr>user_id = ''alice'', user_email = ''alice@example.org''\<rparr>) None
                          else Fetched None (Some ''invalid token'')),
       selectProfile = (\<lambda>i. Fetched (Some \<lparr>profile_status = ''approved'', profile_role = ''user'',
                                             profile_email = ''alice@example.org''\<rparr>) None),
       selectConversation = (\<lambda>i. if i = ''conv-7'' then Fetched (Some \<lparr>conv_user_id = ''bob''\<rparr>) None
                                else Fetched None (Some ''no rows'')),
       updateTitle = (\<lambda>i t. Succeeds)\<rparr>
     \<lparr>title_conversationId = Some ''conv-7'',
       title_messages = Some [\<lparr>msg_role = ''user'', msg_content = ''hello there''\<rparr>],
       title_authorization = Some ''Bearer tok-alice''\<rparr>
   = \<lparr>status = 404, body = JObj [(''error'', JStr ''Conversation not found'')]\<rparr>"
proof -
  let ?env = "\<lparr>authGetUser = (\<lambda>t. if t = ''tok-alice''
                          then Fetched (Some \<lparr>user_id = ''alice'', user_email = ''alice@example.org''\<rparr>) None
                          else Fetched None (Some ''invalid token'')),
       selectProfile = (\<lambda>i. Fetched (Some \<lparr>profile_status = ''approved'', profile_role = ''user'',
                                             profile_email = ''alice@example.org''\<rparr>) None),
       selectConversation = (\<lambda>i. if i = ''conv-7'' then Fetched (Some \<lparr>conv_user_id = ''bob''\<rparr>) None
                                else Fetched None (Some ''no rows'')),
       updateTitle = (\<lambda>i t. Succeeds)\<rparr>"
  let ?req = "\<lparr>title_conversationId = Some ''conv-7'',
       title_messages = Some [\<lparr>msg_role = ''user'', msg_content = ''hello there''\<rparr>],
       title_authorization = Some ''Bearer tok-alice''\<rparr>"
  have token: "bearerToken (title_authorization ?req) = Some ''tok-alice''"
    by (simp add: bearerToken_def)
  have user: "authGetUser ?env ''tok-alice''
                = Fetched (Some \<lparr>user_id = ''alice'', user_email = ''alice@example.org''\<rparr>) None"
    by simp
  have approved: "selectProfile ?env (user_id \<lparr>user_id = ''alice'', user_email = ''alice@example.org''\<rparr>)
                = Fetched (Some \<lparr>profile_status = ''approved'', profile_role = ''user'',
                                  profile_email = ''alice@example.org''\<rparr>) None"
    "profile_status \<lparr>profile_status = ''approved'', profile_role = ''user'',
                     profile_email = ''alice@example.org''\<rparr> = ''approved''"
    by simp_all
  have foreign: "title_conversationId ?req = Some ''conv-7''"
    "selectConversation ?env ''conv-7'' = Fetched (Some \<lparr>conv_user_id = ''bob''\<rparr>) None"
    "conv_user_id \<lparr>conv_user_id = ''bob''\<rparr>
       \<noteq> user_id \<lparr>user_id = ''alice'', user_email = ''alice@example.org''\<rparr>"
    by simp_all
  have wellformed: "''conv-7'' \<noteq> []
       \<and> (\<exists>messages. title_messages ?req = Some messages \<and> messages \<noteq> [])"
    by simp
  from generateTitle_foreign_conversation_404 [OF token user approved foreign] wellformed
  have "generateTitleHandler ?env ?req = errorResponse 404 ''Conversation not found''"
    by blast
  then show ?thesis by (simp only: errorResponse_def)
qed

section \<open>Document upload (routes/documents.js, \<open>POST /\<close>)\<close>

subsection \<open>Rollback of the upload\<close>

lemma extractTextFromFile_returns:
  "\<exists>result. extractTextFromFile env file filePath = Inr result"
  by (auto simp: extractTextFromFile_def extractTry_def split: sum.splits)

lemma uploadStore_insert_fails:
  assumes "file_path file \<in> scratch w" and "storageUpload env = Succeeds"
      and "insertDocument env = Fails dbError"
  shows "storageRemove env = Succeeds \<Longrightarrow>
           uploadStore env req file title user w =
             (errorResponse 500 dbError,
              cleanupTempFile (file_path file)
                (w\<lparr>objects := objects w - {user_id user @ ''/'' @ objectName env}\<rparr>))"
    and "storageRemove env = Fails removeError \<Longrightarrow>
           uploadStore env req file title user w =
             (errorResponse 500 dbError,
              cleanupTempFile (file_path file)
                (w\<lparr>objects := insert (user_id user @ ''/'' @ objectName env) (objects w)\<rparr>))"
proof -
  obtain extractedText where "extractTextFromFile (extraction env) file (file_path file) = Inr extractedText"
    using extractTextFromFile_returns by blast
  then show "storageRemove env = Succeeds \<Longrightarrow>
           uploadStore env req file title user w =
             (errorResponse 500 dbError,
              cleanupTempFile (file_path file)
                (w\<lparr>objects := objects w - {user_id user @ ''/'' @ objectName env}\<rparr>))"
    and "storageRemove env = Fails removeError \<Longrightarrow>
           uploadStore env req file title user w =
             (errorResponse 500 dbError,
              cleanupTempFile (file_path file)
                (w\<lparr>objects := insert (user_id user @ ''/'' @ objectName env) (objects w)\<rparr>))"
    using assms by (simp_all add: uploadStore_def Let_def)
qed

lemma uploadHandler_reaches_store:
  assumes "up_file req = Some file" and "up_title req = Some title" and "title \<noteq> []"
      and "bearerToken (up_authorization req) = Some token"
      and "authGetUser env token = Fetched (Some user) None"
      and "fst (isAllowed (limiter w) (''upload:'' @ user_id user) 10 60000 (clock env))"
      and "selectProfile env (user_id user) = Fetched (Some p) profileError"
      and "profile_status p = ''approved''"
  shows "uploadHandler env req w =
           uploadStore env req file title user
             (w\<lparr>limiter := snd (isAllowed (limiter w) (''upload:'' @ user_id user) 10 60000 (clock env))\<rparr>)"
  using assms by (simp add: uploadHandler_def uploadAuthorized_def Let_def)

text \<open>
  C1, as the code has it. On an upload that gets as far as the storage (a file and a
  title, a token that resolves to a user admitted by the rate limiter and with an
  approved profile), when the object upload succeeds, the insert of the row resolves
  with an error and the remove call that the handler then issues succeeds: the handler
  answers 500 with the message of the insert error, and in the state it leaves the
  object key does not exist, no row was added and the scratch file is gone.
\<close>

theorem uploadHandler_insert_failure_rollback:
  assumes "up_file req = Some file" and "file_path file \<in> scratch w"
      and "up_title req = Some title" and "title \<noteq> []"
      and "bearerToken (up_authorization req) = Some token"
      and "authGetUser env token = Fetched (Some user) None"
      and "fst (isAllowed (limiter w) (''upload:'' @ user_id user) 10 60000 (clock env))"
      and "selectProfile env (user_id user) = Fetched (Some p) profileError"
      and "profile_status p = ''approved''"
      and "storageUpload env = Succeeds"
      and "insertDocument env = Fails dbError"
      and "storageRemove env = Succeeds"
  shows "fst (uploadHandler env req w) = errorResponse 500 dbError
       \<and> user_id user @ ''/'' @ objectName env \<notin> objects (snd (uploadHandler env req w))
       \<and> objects (snd (uploadHandler env req w)) \<subseteq> objects w
       \<and> documents (snd (uploadHandler env req w)) = documents w
       \<and> file_path file \<notin> scratch (snd (uploadHandler env req w))"
proof -
  let ?w1 = "w\<lparr>limiter := snd (isAllowed (limiter w) (''upload:'' @ user_id user) 10 60000 (clock env))\<rparr>"
  have reach: "uploadHandler env req w = uploadStore env req file title user ?w1"
    using assms(1,3-9) by (rule uploadHandler_reaches_store)
  have "file_path file \<in> scratch ?w1" using assms(2) by simp
  from uploadStore_insert_fails(1)[OF this assms(10,11,12)]
  show ?thesis unfolding reach by (auto simp: cleanupTempFile_def)
qed

lemma example_reaches_store:
  "uploadHandler (exampleEnv inserted removed) (exampleRequest (Some ''note'')) exampleWorld =
     uploadStore (exampleEnv inserted removed) (exampleRequest (Some ''note'')) exampleFile ''note''
       \<lparr>user_id = ''alice'', user_email = ''alice@example.org''\<rparr>
       (exampleWorld\<lparr>limiter := [''upload:alice'' \<mapsto> [1000]]\<rparr>)"
proof -
  have allowed: "isAllowed (limiter exampleWorld) ''upload:alice'' 10 60000 1000
                   = (True, [''upload:alice'' \<mapsto> [1000]])"
    by (simp add: exampleWorld_def isAllowed_def recorded_def Let_def)
  have "uploadHandler (exampleEnv inserted removed) (exampleRequest (Some ''note'')) exampleWorld =
     uploadStore (exampleEnv inserted removed) (exampleRequest (Some ''note'')) exampleFile ''note''
       \<lparr>user_id = ''alice'', user_email = ''alice@example.org''\<rparr>
       (exampleWorld\<lparr>limiter := snd (isAllowed (limiter exampleWorld)
          (''upload:'' @ user_id \<lparr>user_id = ''alice'', user_email = ''alice@example.org''\<rparr>)
          10 60000 (clock (exampleEnv inserted removed)))\<rparr>)"
    by (rule uploadHandler_reaches_store [where token = "''tok-alice''"
          and p = "\<lparr>profile_status = ''approved'', profile_role = ''user'',
                    profile_email = ''alice@example.org''\<rparr>" and profileError = None])
       (simp_all add: exampleRequest_def exampleEnv_def bearerToken_def allowed)
  then show ?thesis by (simp add: exampleEnv_def allowed)
qed

theorem uploadHandler_insert_failure_rollback_witness:
  "fst (uploadHandler (exampleEnv (Fails ''duplicate key'') Succeeds)
          (exampleRequest (Some ''note'')) exampleWorld)
     = \<lparr>status = 500, body = JObj [(''error'', JStr ''duplicate key'')]\<rparr>
   \<and> ''alice/1762153200000-k3j9x2.txt''
       \<notin> objects (snd (uploadHandler (exampleEnv (Fails ''duplicate key'') Succeeds)
                          (exampleRequest (Some ''note'')) exampleWorld))
   \<and> ''temp/file-17.txt''
       \<notin> scratch (snd (uploadHandler (exampleEnv (Fails ''duplicate key'') Succeeds)
                          (exampleRequest (Some ''note'')) exampleWorld))"
proof -
  have allowed: "isAllowed (limiter exampleWorld) ''upload:alice'' 10 60000 1000
                   = (True, [''upload:alice'' \<mapsto> [1000]])"
    by (simp add: exampleWorld_def isAllowed_def recorded_def Let_def)
  have "fst (uploadHandler (exampleEnv (Fails ''duplicate key'') Succeeds)
               (exampleRequest (Some ''note'')) exampleWorld) = errorResponse 500 ''duplicate key''
       \<and> user_id \<lparr>user_id = ''alice'', user_email = ''alice@example.org''\<rparr> @ ''/''
           @ objectName (exampleEnv (Fails ''duplicate key'') Succeeds)
         \<notin> objects (snd (uploadHandler (exampleEnv (Fails ''duplicate key'') Succeeds)
                          (exampleRequest (Some ''note'')) exampleWorld))
       \<and> objects (snd (uploadHandler (exampleEnv (Fails ''duplicate key'') Succeeds)
                          (exampleRequest (Some ''note'')) exampleWorld)) \<subseteq> objects exampleWorld
       \<and> documents (snd (uploadHandler (exampleEnv (Fails ''duplicate key'') Succeeds)
                          (exampleRequest (Some ''note'')) exampleWorld)) = documents exampleWorld
       \<and> file_path exampleFile
         \<notin> scratch (snd (uploadHandler (exampleEnv (Fails ''duplicate key'') Succeeds)
                          (exampleRequest (Some ''note'')) exampleWorld))"
    by (rule uploadHandler_insert_failure_rollback [where title = "''note''"
          and token = "''tok-alice''"
          and p = "\<lparr>profile_status = ''approved'', profile_role = ''user'',
                    profile_email = ''alice@example.org''\<rparr>" and profileError = None])
       (simp_all add: exampleRequest_def exampleEnv_def exampleWorld_def exampleFile_def
          bearerToken_def allowed [unfolded exampleWorld_def, simplified])
  then show ?thesis
    by (simp add: errorResponse_def exampleEnv_def exampleFile_def)
qed

text \<open>
  C1 as stated fails when the compensating remove call itself resolves with an error:
  the handler does not look at its result, answers 500 with the insert error, and the
  uploaded object stays in the bucket with no row that refers to it.
\<close>

theorem uploadHandler_rollback_counterexample:
  "fst (uploadHandler (exampleEnv (Fails ''duplicate key'') (Fails ''storage unavailable''))
          (exampleRequest (Some ''note'')) exampleWorld)
     = \<lparr>status = 500, body = JObj [(''error'', JStr ''duplicate key'')]\<rparr>
   \<and> ''alice/1762153200000-k3j9x2.txt''
       \<in> objects (snd (uploadHandler (exampleEnv (Fails ''duplicate key'') (Fails ''storage unavailable''))
                          (exampleRequest (Some ''note'')) exampleWorld))
   \<and> documents (snd (uploadHandler (exampleEnv (Fails ''duplicate key'') (Fails ''storage unavailable''))
                          (exampleRequest (Some ''note'')) exampleWorld)) = []"
proof -
  have "uploadStore (exampleEnv (Fails ''duplicate key'') (Fails ''storage unavailable''))
          (exampleRequest (Some ''note'')) exampleFile ''note''
          \<lparr>user_id = ''alice'', user_email = ''alice@example.org''\<rparr>
          (exampleWorld\<lparr>limiter := [''upload:alice'' \<mapsto> [1000]]\<rparr>)
        = (errorResponse 500 ''duplicate key'',
           cleanupTempFile (file_path exampleFile)
             (exampleWorld\<lparr>limiter := [''upload:alice'' \<mapsto> [1000]],
                objects := insert (user_id \<lparr>user_id = ''alice'', user_email = ''alice@example.org''\<rparr>
                  @ ''/'' @ objectName (exampleEnv (Fails ''duplicate key'') (Fails ''storage unavailable'')))
                  (objects (exampleWorld\<lparr>limiter := [''upload:alice'' \<mapsto> [1000]]\<rparr>))\<rparr>))"
    by (rule uploadStore_insert_fails(2) [where removeError = "''storage unavailable''"])
       (simp_all add: exampleEnv_def exampleWorld_def exampleFile_def)
  then show ?thesis
    unfolding example_reaches_store
    by (simp add: errorResponse_def cleanupTempFile_def exampleEnv_def exampleWorld_def
        exampleFile_def)
qed

subsection \<open>Scratch file of the upload\<close>

lemma uploadCatch_cleans:
  assumes "up_file req = Some file" and "file_path file \<noteq> []"
  shows "file_path file \<notin> scratch (snd (uploadCatch req message w))"
  using assms by (simp add: uploadCatch_def cleanupTempFile_def)

lemma cleanupTempFile_cleans: "filePath \<notin> scratch (cleanupTempFile filePath w)"
  by (simp add: cleanupTempFile_def)

lemma uploadStore_cleans:
  assumes "up_file req = Some file" and "file_path file \<noteq> []"
  shows "file_path file \<notin> scratch (snd (uploadStore env req file title user w))"
  by (simp add: uploadStore_def Let_def uploadCatch_cleans[OF assms] cleanupTempFile_cleans
      split: sum.splits outcome.splits)

lemma uploadAuthorized_cleans:
  assumes "up_file req = Some file" and "file_path file \<noteq> []"
  shows "file_path file \<notin> scratch (snd (uploadAuthorized env req file title user w))"
  by (simp add: uploadAuthorized_def Let_def uploadCatch_cleans[OF assms]
      uploadStore_cleans[OF assms] cleanupTempFile_cleans split: fetched.splits)

text \<open>
  Once the handler has found a file and a title, every way out of it (401, 429, 403,
  500 and the success) has unlinked the scratch file.
\<close>

lemma uploadHandler_cleans:
  assumes "up_file req = Some file" and "file_path file \<noteq> []"
      and "up_title req = Some title" and "title \<noteq> []"
  shows "file_path file \<notin> scratch (snd (uploadHandler env req w))"
  using assms
  by (simp add: uploadHandler_def uploadCatch_cleans[OF assms(1,2)]
      uploadAuthorized_cleans[OF assms(1,2)] cleanupTempFile_cleans
      split: option.splits fetched.splits)

text \<open>The rejections in front of that leave the state as it is.\<close>

lemma uploadHandler_missing_title:
  assumes "up_title req = None \<or> up_title req = Some []"
  shows "uploadHandler env req w = (errorResponse 400 ''File and title are required'', w)"
  using assms by (auto simp: uploadHandler_def split: option.splits)

lemma uploadRoute_validateFile_rejects:
  assumes "validateFile (up_file req) = Some rejected"
  shows "uploadRoute env schema req w = (rejected, w)"
  using assms by (simp add: uploadRoute_def)

lemma uploadRoute_without_title:
  assumes "up_title req = None"
  shows "status (fst (uploadRoute env uploadDocumentSchema req w)) = 400
       \<and> snd (uploadRoute env uploadDocumentSchema req w) = w"
proof (cases "validateFile (up_file req)")
  case None
  have "\<exists>details. uploadDocumentSchema (None, up_isCompanyWide req) = Inl details"
    by (auto simp: uploadDocumentSchema_def Let_def split: option.splits json.splits)
  then show ?thesis using None assms
    by (auto simp: uploadRoute_def validate_def)
next
  case (Some rejected)
  then have "status rejected = 400"
    by (auto simp: validateFile_def Let_def split: option.splits if_splits)
  with Some show ?thesis by (simp add: uploadRoute_def)
qed

text \<open>
  C2 fails on the upload route. A request with a file part and no title is answered
  with 400 by \<open>validate\<close>, and would be by the handler's own check, without
  \<open>cleanupTempFile\<close>: the scratch file that multer wrote for the request is still on
  disk when the response is sent.
\<close>

theorem uploadRoute_missing_title_leaves_scratch:
  "status (fst (uploadRoute (exampleEnv Succeeds Succeeds) uploadDocumentSchema
                  (exampleRequest None) exampleWorld)) = 400
   \<and> ''temp/file-17.txt''
       \<in> scratch (snd (uploadRoute (exampleEnv Succeeds Succeeds) uploadDocumentSchema
                          (exampleRequest None) exampleWorld))
   \<and> status (fst (uploadHandler (exampleEnv Succeeds Succeeds) (exampleRequest None) exampleWorld))
       = 400
   \<and> ''temp/file-17.txt''
       \<in> scratch (snd (uploadHandler (exampleEnv Succeeds Succeeds) (exampleRequest None)
                          exampleWorld))"
proof -
  have none: "up_title (exampleRequest None) = None" by (simp add: exampleRequest_def)
  have route: "status (fst (uploadRoute (exampleEnv Succeeds Succeeds) uploadDocumentSchema
                              (exampleRequest None) exampleWorld)) = 400
             \<and> snd (uploadRoute (exampleEnv Succeeds Succeeds) uploadDocumentSchema
                      (exampleRequest None) exampleWorld) = exampleWorld"
    using none by (rule uploadRoute_without_title)
  have handler: "uploadHandler (exampleEnv Succeeds Succeeds) (exampleRequest None) exampleWorld
                   = (errorResponse 400 ''File and title are required'', exampleWorld)"
    using none by (intro uploadHandler_missing_title) simp
  have "''temp/file-17.txt'' \<in> scratch exampleWorld" by (simp add: exampleWorld_def)
  with route handler show ?thesis by (simp add: errorResponse_def)
qed

text \<open>
  \<open>validateFile\<close> leaves the scratch file in the same way: a PDF of 20 MB passes the
  50 MB limit of multer and is rejected here with 400.
\<close>

lemma uploadRoute_oversized_pdf_leaves_scratch:
  "uploadRoute env schema
     \<lparr>up_file = Some \<lparr>file_path = ''temp/file-18.pdf'', file_mimetype = ''application/pdf'',
                       file_originalname = ''scan.pdf'', file_size = 20971520\<rparr>,
      up_title = Some ''scan'', up_isCompanyWide = None, up_authorization = Some ''Bearer tok-alice''\<rparr>
     w
   = (\<lparr>status = 400,
       body = JObj [(''error'', JStr ''File size exceeds limit''), (''maxSize'', JStr ''10MB'')]\<rparr>, w)"
proof -
  have ten: "show_nat 10 = ''10''"
    by (simp add: show_nat.simps[of 10] show_nat.simps[of "Suc 0"])
  show ?thesis
    by (simp add: uploadRoute_def validateFile_def getMaxFileSize_def allowedPdf_def
        maxSizePdf_def Let_def ten)
qed

section \<open>The extraction pipeline (app.js, \<open>POST /extract\<close>, with services/storage-service.js)\<close>

subsection \<open>Scratch files of the pipeline\<close>

lemma releaseFiles_scratch:
  "scratch (releaseFiles env tempFilePath downloaded storageInfo w) =
     scratch w - {tempFilePath}
       - (case downloaded of None \<Rightarrow> {} | Some d \<Rightarrow> if d \<noteq> [] then {d} else {})"
  by (auto simp: releaseFiles_def cleanupTempFile_def storageDeleteFile_def Let_def
      split: option.splits outcome.splits)

lemma extractCatch_scratch:
  "scratch (snd (extractCatch env file message w)) \<subseteq> scratch w"
  by (auto simp: extractCatch_def cleanupTempFile_def)

text \<open>
  Every way out of the \<open>/extract\<close> handler has unlinked the uploaded scratch file and,
  when the download created one, the downloaded scratch file.
\<close>

lemma extractHandler_cleans:
  "file_path file \<notin> scratch (snd (extractHandler env (Some file) w))
   \<and> (downloadPath env \<noteq> [] \<longrightarrow> downloadPath env \<notin> scratch w \<longrightarrow>
        downloadPath env \<notin> scratch (snd (extractHandler env (Some file) w)))"
proof -
  have catch: "x \<notin> scratch w' \<Longrightarrow> x \<notin> scratch (snd (extractCatch env file message w'))"
    for x w' message
    using extractCatch_scratch by blast
  show ?thesis
    by (auto simp: extractHandler_def Let_def storageUploadFile_def storageDownloadFile_def
        releaseFiles_scratch cleanupTempFile_def intro!: catch
        split: outcome.splits option.splits sum.splits prod.splits if_splits)
qed

subsection \<open>A content type without an extractor\<close>

text \<open>
  Every content type that the upload filters let through has a service, respectively a
  branch of \<open>extractTextFromFile\<close>: a type without an extractor reaches neither
  handler through its route.
\<close>

lemma extractFileFilter_has_service:
  assumes "extractFileFilter mimetype"
  shows "getServiceForFile mimetype \<noteq> None"
proof -
  have "\<forall>m\<in>set [''application/pdf'', ''application/msword'',
        ''application/vnd.openxmlformats-officedocument.wordprocessingml.document'',
        ''image/png'', ''image/jpeg'', ''image/jpg'', ''image/gif'', ''image/bmp'', ''image/tiff''].
        getServiceForFile m \<noteq> None"
    by (simp add: getServiceForFile_def)
  then show ?thesis using assms unfolding extractFileFilter_def by blast
qed

lemma documentsFileFilter_has_branch:
  assumes "documentsFileFilter mimetype"
  shows "mimetype = ''text/plain'' \<or> mimetype = ''application/pdf''
     \<or> str_includes mimetype ''wordprocessingml'' \<or> str_includes mimetype ''msword''"
proof -
  have "\<forall>m\<in>set (allowedPdf @ allowedDocument). m = ''text/plain'' \<or> m = ''application/pdf''
     \<or> str_includes m ''wordprocessingml'' \<or> str_includes m ''msword''"
    by (simp add: allowedPdf_def allowedDocument_def)
  then show ?thesis using assms unfolding documentsFileFilter_def by blast
qed

text \<open>
  The handler of \<open>/extract\<close> has a branch for a type without a service: once the
  upload to the bucket and the download have succeeded it answers 400 "Unsupported file
  type", whereas a service that throws is answered with 500 "Text extraction failed".
\<close>

lemma extractHandler_no_service:
  assumes "getServiceForFile (file_mimetype file) = None" and "file_path file \<in> scratch w"
      and "bucketUpload env = Succeeds" and "bucketDownload env = Succeeds"
  shows "fst (extractHandler env (Some file) w) = unsupportedType"
  using assms
  by (simp add: extractHandler_def Let_def storageUploadFile_def storageDownloadFile_def)

lemma extractHandler_service_throws:
  assumes "getServiceForFile (file_mimetype file) = Some srv" and "file_path file \<in> scratch w"
      and "bucketUpload env = Succeeds" and "bucketDownload env = Succeeds"
      and "serviceExtractText env srv (downloadPath env) = Inl message"
  shows "fst (extractHandler env (Some file) w) =
           \<lparr>status = 500,
            body = JObj [(''error'', JStr ''Text extraction failed''), (''message'', JStr message),
                         (''timestamp'', JStr (timestamp env))]\<rparr>"
  using assms
  by (simp add: extractHandler_def Let_def storageUploadFile_def storageDownloadFile_def
      extractCatch_def)

text \<open>
  \<open>extractTextFromFile\<close> of the documents route has no such branch: a content type
  that none of its branches takes would get the synthesized fallback text.
\<close>

lemma extractTextFromFile_no_branch:
  assumes "file_mimetype file \<noteq> ''text/plain''" and "file_mimetype file \<noteq> ''application/pdf''"
      and "\<not> str_includes (file_mimetype file) ''wordprocessingml''"
      and "\<not> str_includes (file_mimetype file) ''msword''"
  shows "extractTextFromFile env file filePath = Inr (insufficientFallback env file)"
  using assms by (simp add: extractTextFromFile_def extractTry_def runExtractor_def)

text \<open>
  Through the route, a file of a content type without a service never reaches the
  handler: the filter of multer refuses it with a plain \<open>Error\<close>, which the error
  middleware answers with 500 "Internal server error". Nothing is stored and no scratch
  file is written.
\<close>

lemma extractRoute_no_service:
  assumes "getServiceForFile (file_mimetype file) = None"
  shows "extractRoute env (Some file) w =
           (\<lparr>status = 500,
             body = JObj [(''error'', JStr ''Internal server error''),
                          (''message'', JStr ''Unsupported file type'')]\<rparr>, w)"
proof -
  from assms extractFileFilter_has_service have "\<not> extractFileFilter (file_mimetype file)"
    by blast
  then show ?thesis by (simp add: extractRoute_def uploadSingle_def errorMiddleware_def)
qed

text \<open>
  The handler answers a file whose type has a service with 200 or, from its outer
  \<open>catch\<close>, with 500; so no request gets the 400 "Unsupported file type" of the
  handler through the route.
\<close>

lemma extractHandler_with_service:
  assumes "getServiceForFile (file_mimetype file) = Some srv"
  shows "status (fst (extractHandler env (Some file) w)) = 200
       \<or> status (fst (extractHandler env (Some file) w)) = 500"
proof -
  have catch: "status (fst (extractCatch env file message w')) = 500" for message w'
    by (simp add: extractCatch_def)
  obtain r1 w1 where up: "storageUploadFile env (file_path file) w = (r1, w1)"
    by (cases "storageUploadFile env (file_path file) w")
  show ?thesis
  proof (cases r1)
    case (Inl storageError)
    with up show ?thesis by (simp add: extractHandler_def Let_def catch)
  next
    case (Inr storageInfo)
    obtain r2 w2 where down: "storageDownloadFile env (info_path storageInfo) w1 = (r2, w2)"
      by (cases "storageDownloadFile env (info_path storageInfo) w1")
    show ?thesis
    proof (cases r2)
      case (Inl storageError)
      with up Inr down show ?thesis by (simp add: extractHandler_def Let_def catch)
    next
      case downloaded: (Inr downloadedFilePath)
      show ?thesis
      proof (cases "serviceExtractText env srv downloadedFilePath")
        case (Inl storageError)
        with up Inr down downloaded assms show ?thesis
          by (simp add: extractHandler_def Let_def catch)
      next
        case extracted: (Inr result)
        with up Inr down downloaded assms show ?thesis
          by (simp add: extractHandler_def Let_def split_beta)
      qed
    qed
  qed
qed

lemma extractRoute_never_unsupportedType:
  "fst (extractRoute env part w) \<noteq> unsupportedType"
proof (cases part)
  case None
  then show ?thesis
    by (simp add: extractRoute_def uploadSingle_def extractHandler_def unsupportedType_def)
next
  case (Some given)
  show ?thesis
  proof (cases "extractFileFilter (file_mimetype given)")
    case False
    with Some show ?thesis
      by (simp add: extractRoute_def uploadSingle_def errorMiddleware_def unsupportedType_def)
  next
    case True
    show ?thesis
    proof (cases "file_size given > 10 * 1024 * 1024")
      case large: True
      with Some True show ?thesis
        by (simp add: extractRoute_def uploadSingle_def errorMiddleware_def unsupportedType_def)
    next
      case small: False
      from True extractFileFilter_has_service obtain srv
        where "getServiceForFile (file_mimetype given) = Some srv" by blast
      from extractHandler_with_service[OF this, of env
             "w\<lparr>scratch := insert (file_path given) (scratch w)\<rparr>"]
      have "status (fst (extractHandler env (Some given)
                      (w\<lparr>scratch := insert (file_path given) (scratch w)\<rparr>))) \<noteq> 400"
        by auto
      moreover have "status unsupportedType = 400" by (simp add: unsupportedType_def)
      moreover have "extractRoute env part w
          = extractHandler env (Some given) (w\<lparr>scratch := insert (file_path given) (scratch w)\<rparr>)"
        using Some True small by (simp add: extractRoute_def uploadSingle_def)
      ultimately show ?thesis by auto
    qed
  qed
qed

text \<open>
  An extraction failure is answered with 500 as well, by the outer \<open>catch\<close> of the
  handler: a PDF that pdf-parse cannot read.
\<close>

lemma extractRoute_extraction_failure:
  "fst (extractRoute
     (examplePipeline\<lparr>uploadName := ''1762153200000-424242.pdf'',
                       downloadPath := ''temp/temp-1762153200100-1762153200000-424242.pdf''\<rparr>)
     (Some \<lparr>file_path = ''temp/file-20.pdf'', file_mimetype = ''application/pdf'',
            file_originalname = ''report.pdf'', file_size = 2048\<rparr>)
     \<lparr>scratch = {}, objects = {}, documents = [], limiter = Map.empty\<rparr>)
   = \<lparr>status = 500,
      body = JObj [(''error'', JStr ''Text extraction failed''),
                   (''message'', JStr ''PDF extraction failed: Invalid PDF structure''),
                   (''timestamp'', JStr ''2026-11-03T07:00:00.000Z'')]\<rparr>"
  by (simp add: extractRoute_def uploadSingle_def extractFileFilter_def extractHandler_def
      Let_def storageUploadFile_def storageDownloadFile_def getServiceForFile_def
      serviceExtractText_def examplePipeline_def releaseFiles_def cleanupTempFile_def
      storageDeleteFile_def extractCatch_def)

text \<open>
  C6 fails on the \<open>/extract\<close> route. A request with a file of type
  \<open>application/zip\<close>, for which \<open>getServiceForFile\<close> finds no service, is answered
  with 500 "Internal server error" by the error middleware, and not with the 400
  "Unsupported file type" that the handler holds ready for a type without a service.
\<close>

theorem extractRoute_unsupported_type_500:
  "getServiceForFile (file_mimetype exampleArchive) = None
   \<and> extractRoute examplePipeline (Some exampleArchive)
         \<lparr>scratch = {}, objects = {}, documents = [], limiter = Map.empty\<rparr>
       = (\<lparr>status = 500,
           body = JObj [(''error'', JStr ''Internal server error''),
                        (''message'', JStr ''Unsupported file type'')]\<rparr>,
          \<lparr>scratch = {}, objects = {}, documents = [], limiter = Map.empty\<rparr>)
   \<and> status unsupportedType = 400
   \<and> fst (extractRoute examplePipeline (Some exampleArchive)
            \<lparr>scratch = {}, objects = {}, documents = [], limiter = Map.empty\<rparr>)
       \<noteq> unsupportedType"
proof -
  have none: "getServiceForFile (file_mimetype exampleArchive) = None"
    by (simp add: exampleArchive_def getServiceForFile_def)
  from none extractRoute_no_service[OF none] show ?thesis
    by (simp add: unsupportedType_def)
qed

end
